(* ===== verification/Prelude.thy ===== *)
theory Prelude
  imports Main
begin

text \<open>
  Shared vocabulary of the development: the error values every layer can produce, the
  outcome of an awaited call (its settled promise and the state it leaves), sequencing
  of fallible steps, a traversal that stops at the first error, and the generic lemmas
  on sums that the component theories use. Nothing here models a particular source
  function.
\<close>

named_theorems model_simps "characteristic equations of the model's operations"

section \<open>Errors\<close>

text \<open>
  Errors of the persistence layer: the mapper's own validation error for a missing
  non-null attribute (\<open>NotNullViolation\<close>, raised before any SQL is sent) and the
  errors of an SQL statement, named after the SQLite constraint or failure they come from
  (foreign keys on, as the ORM configures SQLite); and the errors a caller of the
  domain or repository code can observe: the domain's validation errors (their message),
  a failed database statement, and the JavaScript \<open>TypeError\<close> of a property read on
  \<open>null\<close>.
\<close>

datatype db_error =
    UniqueViolation string
  | ForeignKeyViolation string
  | NotNullViolation string
  | NotNullConstraint string
  | NoSuchColumn string

datatype error =
    ValidationError string
  | DbError db_error
  | TypeError string

section \<open>Settled promises\<close>

text \<open>
  An \<open>async\<close> method settles its promise (resolved with a value, \<open>Inr\<close>, or
  rejected with an error, \<open>Inl\<close>) and leaves the world in some state: an
  \<open>outcome\<close> is both. A rejected promise keeps every effect that already happened.
\<close>

type_synonym ('a, 's) outcome = "(error + 'a) \<times> 's"

section \<open>Sequencing of fallible computations\<close>

definition bindS :: "'e + 'a \<Rightarrow> ('a \<Rightarrow> 'e + 'b) \<Rightarrow> 'e + 'b" where
  "bindS r f = (case r of Inl e \<Rightarrow> Inl e | Inr a \<Rightarrow> f a)"

text \<open>\<open>traverse f xs\<close> applies a fallible function to every element, in order, and
  stops at the first error.\<close>

fun traverse :: "('a \<Rightarrow> 'e + 'b) \<Rightarrow> 'a list \<Rightarrow> 'e + 'b list" where
  "traverse f [] = Inr []"
| "traverse f (x # xs) =
     (case f x of Inl e \<Rightarrow> Inl e
      | Inr y \<Rightarrow> (case traverse f xs of Inl e \<Rightarrow> Inl e | Inr ys \<Rightarrow> Inr (y # ys)))"

section \<open>Lemmas\<close>

lemma bindS_Inl [simp]: "bindS (Inl e) f = Inl e"
  by (simp add: bindS_def)

lemma bindS_Inr [simp]: "bindS (Inr a) f = f a"
  by (simp add: bindS_def)

lemma bindS_eq_Inr_iff:
  "bindS r f = Inr b \<longleftrightarrow> (\<exists>a. r = Inr a \<and> f a = Inr b)"
  by (cases r) auto

lemma find_append:
  "find P (xs @ ys) = (case find P xs of None \<Rightarrow> find P ys | Some x \<Rightarrow> Some x)"
  by (induction xs) auto

end
