(* ===== verification/Customer.thy ===== *)
theory Customer
  imports Prelude
begin

text \<open>
  The \<open>Customer\<close> entity and its \<open>Address\<close> value object
  (\<open>src/domain/entity/customer.ts\<close>, \<open>address.ts\<close>; these files are not in the
  repository snapshot, so the model follows the spec, section 4.1, and the behaviour the
  unit tests of \<open>src/src/domain/entity/custumer.spec.ts\<close> exercise). A customer is a
  record; each method is a function from the customer to the updated customer, or to an
  error where the method throws; the spec names the errors but not their texts, so the
  messages are the ones the tests expect, and the tests are therefore not restated as
  properties of this model. The lifecycle is a step function over an operation
  datatype and an inductive set of reachable customers; the invariant (non-empty id, no
  active customer without an address) holds in every reachable customer.
\<close>

section \<open>Data\<close>

record address =
  street :: string
  number :: int
  zip :: string
  city :: string

record customer =
  cust_id :: string
  cust_name :: string
  cust_address :: "address option"
  cust_active :: bool

section \<open>Operations\<close>

text \<open>The constructor validates the id first and the name second.\<close>

definition new_Customer :: "string \<Rightarrow> string \<Rightarrow> error + customer" where
  "new_Customer i n =
     (if i = [] then Inl (ValidationError ''Id is required'')
      else if n = [] then Inl (ValidationError ''Name is required'')
      else Inr \<lparr>cust_id = i, cust_name = n, cust_address = None, cust_active = False\<rparr>)"

definition changeName :: "customer \<Rightarrow> string \<Rightarrow> customer" where
  "changeName c n = c\<lparr>cust_name := n\<rparr>"

text \<open>\<open>changeAddress(a)\<close>, and the \<open>Address\<close> setter the tests also use.\<close>

definition changeAddress :: "customer \<Rightarrow> address \<Rightarrow> customer" where
  "changeAddress c a = c\<lparr>cust_address := Some a\<rparr>"

definition activate :: "customer \<Rightarrow> error + customer" where
  "activate c =
     (if cust_address c = None
      then Inl (ValidationError ''Address is mandatory to activate a customer'')
      else Inr (c\<lparr>cust_active := True\<rparr>))"

definition deactivate :: "customer \<Rightarrow> customer" where
  "deactivate c = c\<lparr>cust_active := False\<rparr>"

definition isActive :: "customer \<Rightarrow> bool" where
  "isActive c = cust_active c"

section \<open>Lifecycle\<close>

datatype customer_op =
    ChangeName string
  | ChangeAddress address
  | Activate
  | Deactivate

fun customer_step :: "customer \<Rightarrow> customer_op \<Rightarrow> error + customer" where
  "customer_step c (ChangeName n) = Inr (changeName c n)"
| "customer_step c (ChangeAddress a) = Inr (changeAddress c a)"
| "customer_step c Activate = activate c"
| "customer_step c Deactivate = Inr (deactivate c)"

text \<open>A customer is reachable when a constructor call and a sequence of method calls that
  did not throw produce it.\<close>

inductive customer_reachable :: "customer \<Rightarrow> bool" where
  created: "new_Customer i n = Inr c \<Longrightarrow> customer_reachable c"
| stepped: "customer_reachable c \<Longrightarrow> customer_step c op = Inr c' \<Longrightarrow> customer_reachable c'"

definition customer_inv :: "customer \<Rightarrow> bool" where
  "customer_inv c \<longleftrightarrow> cust_id c \<noteq> [] \<and> (cust_active c \<longrightarrow> cust_address c \<noteq> None)"

lemmas customer_defs [model_simps] =
  new_Customer_def changeName_def changeAddress_def activate_def deactivate_def isActive_def

section \<open>Properties\<close>

lemma new_Customer_Inr_iff:
  "new_Customer i n = Inr c \<longleftrightarrow>
     i \<noteq> [] \<and> n \<noteq> [] \<and> c = \<lparr>cust_id = i, cust_name = n, cust_address = None, cust_active = False\<rparr>"
  by (auto simp: new_Customer_def)

lemma new_Customer_inv: "new_Customer i n = Inr c \<Longrightarrow> customer_inv c"
  by (auto simp: new_Customer_Inr_iff customer_inv_def)

lemma customer_step_inv:
  "customer_inv c \<Longrightarrow> customer_step c op = Inr c' \<Longrightarrow> customer_inv c'"
  by (cases op) (auto simp: customer_inv_def customer_defs split: if_splits)

text \<open>
  Every customer that the constructor and a sequence of method calls produce has a
  non-empty id, and is active only if it has an address.
\<close>

theorem customer_reachable_inv: "customer_reachable c \<Longrightarrow> customer_inv c"
proof (induction rule: customer_reachable.induct)
  case (created i n c)
  then show ?case by (rule new_Customer_inv)
next
  case (stepped c op c')
  then show ?case by (blast intro: customer_step_inv)
qed

theorem customer_reachable_inv_witness:
  "customer_reachable
     \<lparr>cust_id = ''1'', cust_name = ''Costumer 1'',
      cust_address = Some \<lparr>street = ''Street 1'', number = 12, zip = ''12323-657'', city = ''Manaus''\<rparr>,
      cust_active = True\<rparr> \<and>
   customer_inv
     \<lparr>cust_id = ''1'', cust_name = ''Costumer 1'',
      cust_address = Some \<lparr>street = ''Street 1'', number = 12, zip = ''12323-657'', city = ''Manaus''\<rparr>,
      cust_active = True\<rparr>"
proof -
  let ?a = "\<lparr>street = ''Street 1'', number = 12, zip = ''12323-657'', city = ''Manaus''\<rparr>"
  let ?c0 = "\<lparr>cust_id = ''1'', cust_name = ''Costumer 1'', cust_address = None, cust_active = False\<rparr>"
  have r0: "customer_reachable ?c0"
    by (rule customer_reachable.created [of "''1''" "''Costumer 1''"]) (simp add: new_Customer_def)
  have r1: "customer_reachable (?c0\<lparr>cust_address := Some ?a\<rparr>)"
    by (rule customer_reachable.stepped [OF r0, of "ChangeAddress ?a"]) (simp add: changeAddress_def)
  have r2: "customer_reachable (?c0\<lparr>cust_address := Some ?a, cust_active := True\<rparr>)"
    by (rule customer_reachable.stepped [OF r1, of Activate]) (simp add: activate_def)
  from r2 have "customer_reachable
     \<lparr>cust_id = ''1'', cust_name = ''Costumer 1'', cust_address = Some ?a, cust_active = True\<rparr>"
    by simp
  with customer_reachable_inv show ?thesis by blast
qed

text \<open>
  The constructor succeeds exactly for a non-empty id and a non-empty name, and
  otherwise throws the validation error of the first empty field: "Id is required"
  before "Name is required".
\<close>

theorem new_Customer_validation:
  "(new_Customer i n = Inl (ValidationError ''Id is required'') \<longleftrightarrow> i = []) \<and>
   (new_Customer i n = Inl (ValidationError ''Name is required'') \<longleftrightarrow> i \<noteq> [] \<and> n = []) \<and>
   ((\<exists>c. new_Customer i n = Inr c) \<longleftrightarrow> i \<noteq> [] \<and> n \<noteq> [])"
  by (simp add: new_Customer_def)

text \<open>
  For any reachable customer, after \<open>changeAddress\<close> the call \<open>activate\<close>
  succeeds and \<open>isActive\<close> is true, the activated customer is again reachable, and
  after \<open>deactivate\<close> \<open>isActive\<close> is false; without an address \<open>activate\<close> throws
  "Address is mandatory to activate a customer".
\<close>

theorem activate_lifecycle:
  assumes "customer_reachable c"
  shows "(\<exists>c'. activate (changeAddress c a) = Inr c' \<and> isActive c' \<and> customer_reachable c' \<and>
               \<not> isActive (deactivate c')) \<and>
         (cust_address c = None \<longrightarrow>
            activate c = Inl (ValidationError ''Address is mandatory to activate a customer''))"
proof -
  let ?c1 = "changeAddress c a"
  let ?c2 = "?c1\<lparr>cust_active := True\<rparr>"
  have r1: "customer_reachable ?c1"
    by (rule customer_reachable.stepped [OF assms, of "ChangeAddress a"]) simp
  have act: "activate ?c1 = Inr ?c2"
    by (simp add: activate_def changeAddress_def)
  have r2: "customer_reachable ?c2"
    by (rule customer_reachable.stepped [OF r1, of Activate]) (simp only: customer_step.simps act)
  show ?thesis
    using act r2 by (simp add: isActive_def deactivate_def activate_def)
qed

theorem activate_lifecycle_witness:
  "customer_reachable \<lparr>cust_id = ''1'', cust_name = ''Costumer 1'', cust_address = None, cust_active = False\<rparr> \<and>
   (\<exists>c'. activate (changeAddress \<lparr>cust_id = ''1'', cust_name = ''Costumer 1'', cust_address = None, cust_active = False\<rparr>
            \<lparr>street = ''Street 1'', number = 12, zip = ''12323-657'', city = ''Manaus''\<rparr>) = Inr c' \<and>
          isActive c' \<and> customer_reachable c' \<and> \<not> isActive (deactivate c'))"
proof -
  have r: "customer_reachable \<lparr>cust_id = ''1'', cust_name = ''Costumer 1'', cust_address = None, cust_active = False\<rparr>"
    by (rule customer_reachable.created [of "''1''" "''Costumer 1''"]) (simp add: new_Customer_def)
  from activate_lifecycle [OF r, of "\<lparr>street = ''Street 1'', number = 12, zip = ''12323-657'', city = ''Manaus''\<rparr>"] r
  show ?thesis by blast
qed

end
