(* ===== verification/Order.thy ===== *)
theory Order
  imports Prelude
begin

text \<open>
  The \<open>Order\<close> aggregate, its \<open>OrderItem\<close> value objects and the \<open>Product\<close> entity
  (\<open>src/domain/entity/order.ts\<close>, \<open>order_item.ts\<close>, \<open>product.ts\<close>; not in the
  repository snapshot, so modelled from the spec, sections 3 and 4.2, and from the calls
  \<open>order.repository.ts\<close> and its tests make). JavaScript numbers of prices and
  quantities are modelled as \<open>int\<close>: every value the code and the tests use is integral.
  \<open>total()\<close> is a left fold (\<open>reduce\<close>) over the items, shown equal to the sum of
  \<open>price * quantity\<close> that the spec states.
\<close>

section \<open>Data\<close>

record product =
  prod_id :: string
  prod_name :: string
  prod_price :: int

record orderItem =
  item_id :: string
  item_name :: string
  item_price :: int
  item_productId :: string
  item_quantity :: int

record order =
  order_id :: string
  order_customerId :: string
  items :: "orderItem list"

section \<open>Operations\<close>

definition new_Product :: "string \<Rightarrow> string \<Rightarrow> int \<Rightarrow> product" where
  "new_Product i n p = \<lparr>prod_id = i, prod_name = n, prod_price = p\<rparr>"

definition new_OrderItem :: "string \<Rightarrow> string \<Rightarrow> int \<Rightarrow> string \<Rightarrow> int \<Rightarrow> orderItem" where
  "new_OrderItem i n p pid q =
     \<lparr>item_id = i, item_name = n, item_price = p, item_productId = pid, item_quantity = q\<rparr>"

text \<open>The spec shows no validation in the \<open>Order\<close> constructor (section 9, open
  question), so none is modelled.\<close>

definition new_Order :: "string \<Rightarrow> string \<Rightarrow> orderItem list \<Rightarrow> order" where
  "new_Order i c itms = \<lparr>order_id = i, order_customerId = c, items = itms\<rparr>"

definition orderItemTotal :: "orderItem \<Rightarrow> int" where
  "orderItemTotal it = item_price it * item_quantity it"

definition total :: "order \<Rightarrow> int" where
  "total ord = foldl (\<lambda>acc it. acc + orderItemTotal it) 0 (items ord)"

lemmas order_defs [model_simps] = new_Product_def new_OrderItem_def new_Order_def orderItemTotal_def

section \<open>Properties\<close>

lemma foldl_add_shift:
  "foldl (\<lambda>acc it. acc + f it) (a :: int) xs = a + sum_list (map f xs)"
  by (induction xs arbitrary: a) (simp_all add: algebra_simps)

lemma total_sum_list:
  "total ord = (\<Sum>it \<leftarrow> items ord. item_price it * item_quantity it)"
  by (simp add: total_def foldl_add_shift orderItemTotal_def)

lemma total_new_Order [simp]:
  "total (new_Order i c itms) = (\<Sum>it \<leftarrow> itms. item_price it * item_quantity it)"
  by (simp add: total_sum_list new_Order_def)

end
