(* ===== verification/Store.thy ===== *)
theory Store
  imports Prelude
begin

text \<open>
  The relational store behind the repositories (spec section 6): four tables,
  \<open>customers\<close>, \<open>products\<close>, \<open>orders\<close> and \<open>order_items\<close>, linked by the foreign
  keys \<open>orders.customer_id\<close>, \<open>order_items.order_id\<close> and
  \<open>order_items.product_id\<close>. A table is a list of rows in insertion order (the order
  SQLite returns them in without \<open>ORDER BY\<close>). Each SQL statement is a function from
  the store to the new store or to the constraint it violates; a statement that fails
  changes nothing. \<open>store_wf\<close> is the invariant the constraints maintain; every
  statement keeps it.
\<close>

section \<open>Rows and tables\<close>

record customer_row =
  cr_id :: string
  cr_name :: string
  cr_active :: bool

record product_row =
  pr_id :: string
  pr_name :: string
  pr_price :: int

record order_row =
  or_id :: string
  or_customerId :: string
  or_total :: int

record item_row =
  ir_id :: string
  ir_name :: string
  ir_price :: int
  ir_productId :: string
  ir_quantity :: int
  ir_orderId :: string

record store =
  customers :: "customer_row list"
  products :: "product_row list"
  orders :: "order_row list"
  order_items :: "item_row list"

definition empty_store :: store where
  "empty_store = \<lparr>customers = [], products = [], orders = [], order_items = []\<rparr>"

section \<open>Statements\<close>

definition insert_customer :: "customer_row \<Rightarrow> store \<Rightarrow> db_error + store" where
  "insert_customer r st =
     (if cr_id r \<in> set (map cr_id (customers st)) then Inl (UniqueViolation ''customers'')
      else Inr (st\<lparr>customers := customers st @ [r]\<rparr>))"

definition insert_product :: "product_row \<Rightarrow> store \<Rightarrow> db_error + store" where
  "insert_product r st =
     (if pr_id r \<in> set (map pr_id (products st)) then Inl (UniqueViolation ''products'')
      else Inr (st\<lparr>products := products st @ [r]\<rparr>))"

definition insert_order :: "order_row \<Rightarrow> store \<Rightarrow> db_error + store" where
  "insert_order r st =
     (if or_id r \<in> set (map or_id (orders st)) then Inl (UniqueViolation ''orders'')
      else if or_customerId r \<notin> set (map cr_id (customers st))
      then Inl (ForeignKeyViolation ''orders.customer_id'')
      else Inr (st\<lparr>orders := orders st @ [r]\<rparr>))"

definition insert_item :: "item_row \<Rightarrow> store \<Rightarrow> db_error + store" where
  "insert_item r st =
     (if ir_id r \<in> set (map ir_id (order_items st)) then Inl (UniqueViolation ''order_items'')
      else if ir_productId r \<notin> set (map pr_id (products st))
      then Inl (ForeignKeyViolation ''order_items.product_id'')
      else if ir_orderId r \<notin> set (map or_id (orders st))
      then Inl (ForeignKeyViolation ''order_items.order_id'')
      else Inr (st\<lparr>order_items := order_items st @ [r]\<rparr>))"

text \<open>A multi-row \<open>INSERT\<close> is one statement: all rows or none.\<close>

fun insert_items :: "item_row list \<Rightarrow> store \<Rightarrow> db_error + store" where
  "insert_items [] st = Inr st"
| "insert_items (r # rs) st =
     (case insert_item r st of Inl e \<Rightarrow> Inl e | Inr st' \<Rightarrow> insert_items rs st')"

definition delete_items :: "(item_row \<Rightarrow> bool) \<Rightarrow> store \<Rightarrow> store" where
  "delete_items P st = st\<lparr>order_items := filter (\<lambda>r. \<not> P r) (order_items st)\<rparr>"

definition update_orders :: "(order_row \<Rightarrow> bool) \<Rightarrow> int \<Rightarrow> store \<Rightarrow> store" where
  "update_orders P t st =
     st\<lparr>orders := map (\<lambda>r. if P r then r\<lparr>or_total := t\<rparr> else r) (orders st)\<rparr>"

definition select_order :: "string \<Rightarrow> store \<Rightarrow> order_row option" where
  "select_order oid st = find (\<lambda>r. or_id r = oid) (orders st)"

definition items_of :: "string \<Rightarrow> store \<Rightarrow> item_row list" where
  "items_of oid st = filter (\<lambda>r. ir_orderId r = oid) (order_items st)"

section \<open>Well-formedness\<close>

definition store_wf :: "store \<Rightarrow> bool" where
  "store_wf st \<longleftrightarrow>
     distinct (map cr_id (customers st)) \<and> distinct (map pr_id (products st)) \<and>
     distinct (map or_id (orders st)) \<and> distinct (map ir_id (order_items st)) \<and>
     set (map or_customerId (orders st)) \<subseteq> set (map cr_id (customers st)) \<and>
     set (map ir_productId (order_items st)) \<subseteq> set (map pr_id (products st)) \<and>
     set (map ir_orderId (order_items st)) \<subseteq> set (map or_id (orders st))"

section \<open>Lemmas\<close>

lemmas store_defs [model_simps] =
  empty_store_def insert_customer_def insert_product_def insert_order_def insert_item_def
  delete_items_def update_orders_def select_order_def items_of_def

lemma store_wf_empty: "store_wf empty_store"
  by (simp add: store_wf_def empty_store_def)

lemma insert_customer_wf: "store_wf st \<Longrightarrow> insert_customer r st = Inr st' \<Longrightarrow> store_wf st'"
  by (auto simp: store_wf_def insert_customer_def split: if_splits; blast)

lemma insert_product_wf: "store_wf st \<Longrightarrow> insert_product r st = Inr st' \<Longrightarrow> store_wf st'"
  by (auto simp: store_wf_def insert_product_def split: if_splits; blast)

lemma insert_order_wf: "store_wf st \<Longrightarrow> insert_order r st = Inr st' \<Longrightarrow> store_wf st'"
  by (auto simp: store_wf_def insert_order_def split: if_splits; blast)

lemma insert_item_wf: "store_wf st \<Longrightarrow> insert_item r st = Inr st' \<Longrightarrow> store_wf st'"
  by (auto simp: store_wf_def insert_item_def split: if_splits; blast)

lemma insert_items_wf: "store_wf st \<Longrightarrow> insert_items rs st = Inr st' \<Longrightarrow> store_wf st'"
  by (induction rs arbitrary: st) (auto split: sum.splits dest: insert_item_wf)

lemma delete_items_wf: "store_wf st \<Longrightarrow> store_wf (delete_items P st)"
  by (auto simp: store_wf_def delete_items_def distinct_map_filter)

lemma update_orders_ids: "map or_id (orders (update_orders P t st)) = map or_id (orders st)"
  by (simp add: update_orders_def comp_def)

lemma update_orders_customers:
  "map or_customerId (orders (update_orders P t st)) = map or_customerId (orders st)"
  by (simp add: update_orders_def comp_def)

lemma update_orders_other [simp]:
  "customers (update_orders P t st) = customers st"
  "products (update_orders P t st) = products st"
  "order_items (update_orders P t st) = order_items st"
  by (simp_all add: update_orders_def)

lemma update_orders_wf: "store_wf st \<Longrightarrow> store_wf (update_orders P t st)"
  unfolding store_wf_def
  by (simp only: update_orders_ids update_orders_customers update_orders_other)

section \<open>Frame lemmas\<close>

lemma insert_item_frame:
  "insert_item r st = Inr st' \<Longrightarrow>
     st' = st\<lparr>order_items := order_items st @ [r]\<rparr>"
  by (simp add: insert_item_def split: if_splits)

lemma select_order_append_new:
  "oid \<notin> set (map or_id os) \<Longrightarrow>
     find (\<lambda>r. or_id r = oid) (os @ [r]) = (if or_id r = oid then Some r else None)"
  by (induction os) auto

lemma insert_items_Inr_iff:
  "insert_items rs st = Inr st' \<longleftrightarrow>
     distinct (map ir_id rs) \<and> set (map ir_id rs) \<inter> set (map ir_id (order_items st)) = {} \<and>
     set (map ir_productId rs) \<subseteq> set (map pr_id (products st)) \<and>
     set (map ir_orderId rs) \<subseteq> set (map or_id (orders st)) \<and>
     st' = st\<lparr>order_items := order_items st @ rs\<rparr>"
proof (induction rs arbitrary: st)
  case Nil
  then show ?case by auto
next
  case (Cons r rs)
  show ?case
  proof (cases "insert_item r st")
    case (Inl e)
    then show ?thesis
      by (auto simp: insert_item_def split: if_splits)
  next
    case (Inr st1)
    then have st1: "st1 = st\<lparr>order_items := order_items st @ [r]\<rparr>"
      by (rule insert_item_frame)
    from Inr have ok: "ir_id r \<notin> set (map ir_id (order_items st)) \<and>
        ir_productId r \<in> set (map pr_id (products st)) \<and> ir_orderId r \<in> set (map or_id (orders st))"
      by (simp add: insert_item_def split: if_splits)
    from Inr have "insert_items (r # rs) st = insert_items rs st1" by simp
    with Cons.IH [of st1] st1 ok show ?thesis
      by auto
  qed
qed

lemma select_order_member:
  "distinct (map or_id os) \<Longrightarrow> r \<in> set os \<Longrightarrow> find (\<lambda>x. or_id x = or_id r) os = Some r"
  by (induction os) (auto simp: image_iff)

lemma select_order_update_orders:
  "select_order oid (update_orders (\<lambda>r. or_id r = x) t st) =
     map_option (\<lambda>r. if or_id r = x then r\<lparr>or_total := t\<rparr> else r) (select_order oid st)"
proof -
  have "find (\<lambda>r. or_id r = oid) (map (\<lambda>r. if or_id r = x then r\<lparr>or_total := t\<rparr> else r) os) =
     map_option (\<lambda>r. if or_id r = x then r\<lparr>or_total := t\<rparr> else r) (find (\<lambda>r. or_id r = oid) os)"
    for os by (induction os) auto
  then show ?thesis by (simp add: select_order_def update_orders_def)
qed

lemma select_order_delete_items [simp]: "select_order oid (delete_items P st) = select_order oid st"
  by (simp add: select_order_def delete_items_def)

lemma items_of_delete_order:
  "items_of oid (delete_items (\<lambda>r. ir_orderId r = x) st) = (if oid = x then [] else items_of oid st)"
  by (auto simp: items_of_def delete_items_def filter_empty_conv intro: filter_cong)

lemma items_of_update_orders [simp]: "items_of oid (update_orders P t st) = items_of oid st"
  by (simp add: items_of_def)

lemma orders_update_orders:
  "orders (update_orders P t st) = map (\<lambda>r. if P r then r\<lparr>or_total := t\<rparr> else r) (orders st)"
  by (simp add: update_orders_def)

lemma delete_items_other [simp]:
  "customers (delete_items P st) = customers st"
  "products (delete_items P st) = products st"
  "orders (delete_items P st) = orders st"
  by (simp_all add: delete_items_def)

end
