(* ===== verification/Sequelize.thy ===== *)
theory Sequelize
  imports Store
begin

text \<open>
  The part of the object-relational mapper (sequelize, sequelize-typescript) that
  \<open>order.repository.ts\<close> calls, as operations on the store of theory \<open>Store\<close>. The
  mapper is an external library, so this theory follows its documented behaviour and the
  schema the repository's tests reveal:
  \<^item> a model instance is built from a plain object (\<open>attrs\<close>, a list of key/value
    pairs); only keys that are attributes of the model are kept. \<open>save\<close> validates the
    instance first, so there a missing non-null attribute is the mapper's
    \<open>NotNullViolation\<close>;
  \<^item> \<open>OrderItemModel\<close> has the attributes \<open>id, name, price, productId, quantity,
    orderId\<close> (the keys of the JSON the tests of \<open>order.repository.spec.ts\<close>, lines 79-86,
    expect), stored in the columns \<open>id, name, price, product_id, quantity, order_id\<close>
    (spec section 6); a \<open>where\<close> key that is an attribute is translated to its column,
    any other key is used as a column name as it is;
  \<^item> \<open>Model.create(values, {include})\<close> inserts the parent row and then saves every child
    with its foreign key set to the parent's id, the children concurrently
    (\<open>Promise.all\<close>): every child insert is attempted, the first failure rejects the call,
    and nothing is rolled back (no transaction);
  \<^item> \<open>bulkCreate\<close> builds the instances the same way but does not validate them
    (\<open>validate\<close> defaults to false); it sends one multi-row \<open>INSERT\<close> in which a missing
    attribute leaves its column \<open>NULL\<close>, and SQLite rejects the statement with
    \<open>NOT NULL constraint failed: order_items.<column>\<close> for the first such column (in
    table order) of the first row that has one; the statement inserts all rows or none;
  \<^item> a managed transaction (\<open>sequelize.transaction(async t => ...)\<close>) commits the
    effects of its body when the body resolves, and rolls all of them back and rethrows
    when it rejects.
\<close>

section \<open>Plain objects and model instances\<close>

datatype val = VStr string | VNum int

type_synonym attrs = "(string \<times> val) list"

definition attr_str :: "attrs \<Rightarrow> string \<Rightarrow> db_error + string" where
  "attr_str a k = (case map_of a k of Some (VStr s) \<Rightarrow> Inr s | _ \<Rightarrow> Inl (NotNullViolation k))"

definition attr_num :: "attrs \<Rightarrow> string \<Rightarrow> db_error + int" where
  "attr_num a k = (case map_of a k of Some (VNum n) \<Rightarrow> Inr n | _ \<Rightarrow> Inl (NotNullViolation k))"

text \<open>\<open>OrderItemModel\<close>: attribute names and the columns they are stored in.\<close>

definition item_attributes :: "(string \<times> string) list" where
  "item_attributes =
     [(''id'', ''id''), (''name'', ''name''), (''price'', ''price''),
      (''productId'', ''product_id''), (''quantity'', ''quantity''), (''orderId'', ''order_id'')]"

definition build_item :: "attrs \<Rightarrow> db_error + item_row" where
  "build_item a =
     bindS (attr_str a ''id'') (\<lambda>i.
     bindS (attr_str a ''name'') (\<lambda>n.
     bindS (attr_num a ''price'') (\<lambda>p.
     bindS (attr_str a ''productId'') (\<lambda>pid.
     bindS (attr_num a ''quantity'') (\<lambda>q.
     bindS (attr_str a ''orderId'') (\<lambda>oid.
       Inr \<lparr>ir_id = i, ir_name = n, ir_price = p, ir_productId = pid,
            ir_quantity = q, ir_orderId = oid\<rparr>))))))"

text \<open>\<open>OrderModel\<close>: attributes \<open>id, customerId, total\<close>.\<close>

definition build_order :: "attrs \<Rightarrow> db_error + order_row" where
  "build_order a =
     bindS (attr_str a ''id'') (\<lambda>i.
     bindS (attr_str a ''customerId'') (\<lambda>c.
     bindS (attr_num a ''total'') (\<lambda>t.
       Inr \<lparr>or_id = i, or_customerId = c, or_total = t\<rparr>)))"

section \<open>Model operations\<close>

text \<open>\<open>OrderModel.create(values, {include: [OrderItemModel]})\<close>: the children.\<close>

fun save_children :: "string \<Rightarrow> attrs list \<Rightarrow> store \<Rightarrow> db_error option \<times> store" where
  "save_children oid [] st = (None, st)"
| "save_children oid (a # as) st =
     (case bindS (build_item ((''orderId'', VStr oid) # a)) (\<lambda>r. insert_item r st) of
        Inl e \<Rightarrow> (Some e, snd (save_children oid as st))
      | Inr st' \<Rightarrow> save_children oid as st')"

definition create_with_items :: "attrs \<Rightarrow> attrs list \<Rightarrow> store \<Rightarrow> (db_error + unit) \<times> store" where
  "create_with_items a children st =
     (case build_order a of
        Inl e \<Rightarrow> (Inl e, st)
      | Inr r \<Rightarrow>
          (case insert_order r st of
             Inl e \<Rightarrow> (Inl e, st)
           | Inr st1 \<Rightarrow>
               (case save_children (or_id r) children st1 of
                  (None, st2) \<Rightarrow> (Inr (), st2)
                | (Some e, st2) \<Rightarrow> (Inl e, st2))))"

text \<open>\<open>OrderItemModel.destroy({where: {k: v}})\<close>.\<close>

definition item_column :: "string \<Rightarrow> string" where
  "item_column k = (case map_of item_attributes k of Some c \<Rightarrow> c | None \<Rightarrow> k)"

definition item_col_val :: "string \<Rightarrow> item_row \<Rightarrow> val option" where
  "item_col_val c r =
     (if c = ''id'' then Some (VStr (ir_id r))
      else if c = ''name'' then Some (VStr (ir_name r))
      else if c = ''price'' then Some (VNum (ir_price r))
      else if c = ''product_id'' then Some (VStr (ir_productId r))
      else if c = ''quantity'' then Some (VNum (ir_quantity r))
      else if c = ''order_id'' then Some (VStr (ir_orderId r))
      else None)"

definition destroy_items_where :: "string \<Rightarrow> val \<Rightarrow> store \<Rightarrow> db_error + store" where
  "destroy_items_where k v st =
     (let c = item_column k in
      if c \<in> set (map snd item_attributes)
      then Inr (delete_items (\<lambda>r. item_col_val c r = Some v) st)
      else Inl (NoSuchColumn c))"

text \<open>\<open>OrderItemModel.bulkCreate(values)\<close>. Building the rows finds the first missing
  attribute of the first incomplete object, in the order of the columns; without
  validation that attribute reaches SQLite as \<open>NULL\<close> in its column, and the error is the
  constraint of that column. The NOT NULL checks of all rows are made before the key
  checks of any row; this decides only which error a statement with both kinds of fault
  reports, not whether it fails.\<close>

definition not_null_constraint :: "db_error \<Rightarrow> db_error" where
  "not_null_constraint e =
     (case e of NotNullViolation a \<Rightarrow> NotNullConstraint (''order_items.'' @ item_column a) | _ \<Rightarrow> e)"

definition bulkCreate_items :: "attrs list \<Rightarrow> store \<Rightarrow> db_error + store" where
  "bulkCreate_items as st =
     bindS (map_sum not_null_constraint id (traverse build_item as)) (\<lambda>rs. insert_items rs st)"

text \<open>\<open>OrderModel.update({total: t}, {where: {id: oid}})\<close>.\<close>

definition update_total_where_id :: "int \<Rightarrow> string \<Rightarrow> store \<Rightarrow> db_error + store" where
  "update_total_where_id t oid st = Inr (update_orders (\<lambda>r. or_id r = oid) t st)"

text \<open>\<open>sequelize.transaction(async t => body)\<close>, managed.\<close>

definition transaction :: "(store \<Rightarrow> db_error + store) \<Rightarrow> store \<Rightarrow> (db_error + unit) \<times> store" where
  "transaction body st = (case body st of Inl e \<Rightarrow> (Inl e, st) | Inr st' \<Rightarrow> (Inr (), st'))"

text \<open>\<open>OrderModel.findOne({where: {id}, include})\<close> (\<open>None\<close> is \<open>null\<close>) and
  \<open>OrderModel.findAll({include})\<close>: each order row with its item rows.\<close>

definition findOne_with_items :: "string \<Rightarrow> store \<Rightarrow> (order_row \<times> item_row list) option" where
  "findOne_with_items oid st = map_option (\<lambda>r. (r, items_of (or_id r) st)) (select_order oid st)"

definition findAll_with_items :: "store \<Rightarrow> (order_row \<times> item_row list) list" where
  "findAll_with_items st = map (\<lambda>r. (r, items_of (or_id r) st)) (orders st)"

lemmas sequelize_defs [model_simps] =
  attr_str_def attr_num_def item_attributes_def build_item_def build_order_def create_with_items_def
  item_column_def item_col_val_def destroy_items_where_def not_null_constraint_def bulkCreate_items_def
  update_total_where_id_def transaction_def findOne_with_items_def findAll_with_items_def

section \<open>Properties of the model operations\<close>

lemma transaction_rollback:
  "body st = Inl e \<Longrightarrow> transaction body st = (Inl e, st)"
  by (simp add: transaction_def)

lemma transaction_commit:
  "body st = Inr st' \<Longrightarrow> transaction body st = (Inr (), st')"
  by (simp add: transaction_def)

end
