(* ===== verification/OrderRepository.thy ===== *)
theory OrderRepository
  imports Order Sequelize
begin

text \<open>
  \<open>OrderRepository\<close> (\<open>src/src/infrastructure/repository/order.repository.ts\<close>): the
  four methods as functions on a \<open>world\<close>, the database store together with the console
  the \<open>catch\<close> block of \<open>update\<close> writes to. Each method returns the settled promise
  (\<open>Inr\<close> a value, \<open>Inl\<close> the rejection) and the world after its effects. The plain
  objects the methods hand to the mapper are built with exactly the keys the source
  writes, so that the mapper model decides what happens to each key.
\<close>

record world =
  db :: store
  console :: "string list"

section \<open>create (lines 10-26)\<close>

definition create_item_attrs :: "orderItem \<Rightarrow> attrs" where
  "create_item_attrs it =
     [(''id'', VStr (item_id it)), (''name'', VStr (item_name it)),
      (''price'', VNum (item_price it)), (''productId'', VStr (item_productId it)),
      (''quantity'', VNum (item_quantity it))]"

definition create_attrs :: "order \<Rightarrow> attrs" where
  "create_attrs e =
     [(''id'', VStr (order_id e)), (''customerId'', VStr (order_customerId e)),
      (''total'', VNum (total e))]"

definition create :: "order \<Rightarrow> world \<Rightarrow> (unit, world) outcome" where
  "create e w =
     (case create_with_items (create_attrs e) (map create_item_attrs (items e)) (db w) of
        (r, st) \<Rightarrow> (map_sum DbError id r, w\<lparr>db := st\<rparr>))"

section \<open>update (lines 28-54)\<close>

definition update_item_attrs :: "order \<Rightarrow> orderItem \<Rightarrow> attrs" where
  "update_item_attrs e it =
     [(''id'', VStr (item_id it)), (''name'', VStr (item_name it)),
      (''price'', VNum (item_price it)), (''product_id'', VStr (item_productId it)),
      (''quantity'', VNum (item_quantity it)), (''order_id'', VStr (order_id e))]"

text \<open>The body of the transaction: destroy, bulk insert, update of the total.\<close>

definition update_body :: "order \<Rightarrow> store \<Rightarrow> db_error + store" where
  "update_body e st =
     bindS (destroy_items_where ''order_id'' (VStr (order_id e)) st) (\<lambda>st1.
     bindS (bulkCreate_items (map (update_item_attrs e) (items e)) st1) (\<lambda>st2.
       update_total_where_id (total e) (order_id e) st2))"

text \<open>The text \<open>`error: ${error}`\<close> the \<open>catch\<close> block logs: the error's \<open>name\<close>, a colon
  and its \<open>message\<close>. The mapper's SQLite dialect (\<open>formatError\<close> of its query class)
  turns a failed foreign-key check into a \<open>SequelizeForeignKeyConstraintError\<close> carrying
  SQLite's message, every other \<open>SQLITE_CONSTRAINT\<close> failure (a unique or a NOT NULL
  constraint) into a \<open>SequelizeUniqueConstraintError\<close> with the message
  \<open>Validation error\<close>, and any other SQLite error into a \<open>SequelizeDatabaseError\<close>
  carrying SQLite's message. A \<open>SequelizeValidationError\<close> comes from the mapper's own
  validation, before any SQL is sent.\<close>

fun error_message :: "db_error \<Rightarrow> string" where
  "error_message (UniqueViolation t) = ''SequelizeUniqueConstraintError: Validation error''"
| "error_message (ForeignKeyViolation c) =
     ''SequelizeForeignKeyConstraintError: SQLITE_CONSTRAINT: FOREIGN KEY constraint failed''"
| "error_message (NotNullViolation a) =
     ''SequelizeValidationError: notNull Violation: '' @ a @ '' cannot be null''"
| "error_message (NotNullConstraint c) = ''SequelizeUniqueConstraintError: Validation error''"
| "error_message (NoSuchColumn c) = ''SequelizeDatabaseError: SQLITE_ERROR: no such column: '' @ c"

definition update :: "order \<Rightarrow> world \<Rightarrow> (unit, world) outcome" where
  "update e w =
     (case transaction (update_body e) (db w) of
        (Inl err, st) \<Rightarrow> (Inr (), w\<lparr>db := st, console := console w @ [''error: '' @ error_message err]\<rparr>)
      | (Inr u, st) \<Rightarrow> (Inr u, w\<lparr>db := st\<rparr>))"

section \<open>find (lines 56-77) and findAll (lines 79-90)\<close>

definition item_of_row :: "item_row \<Rightarrow> orderItem" where
  "item_of_row r = new_OrderItem (ir_id r) (ir_name r) (ir_price r) (ir_productId r) (ir_quantity r)"

text \<open>The \<open>for (const iterator of model.items) items.push(...)\<close> loop.\<close>

fun push_items :: "orderItem list \<Rightarrow> item_row list \<Rightarrow> orderItem list" where
  "push_items acc [] = acc"
| "push_items acc (r # rs) = push_items (acc @ [item_of_row r]) rs"

definition order_of_model :: "order_row \<Rightarrow> item_row list \<Rightarrow> order" where
  "order_of_model r irs = new_Order (or_id r) (or_customerId r) (push_items [] irs)"

text \<open>\<open>find\<close> reads \<open>model.items\<close> without checking the result of \<open>findOne\<close>: on a
  missing id that read throws a \<open>TypeError\<close>.\<close>

definition find_order :: "string \<Rightarrow> world \<Rightarrow> (order, world) outcome" where
  "find_order i w =
     (case findOne_with_items i (db w) of
        None \<Rightarrow> (Inl (TypeError ''Cannot read properties of null (reading 'items')''), w)
      | Some (r, irs) \<Rightarrow> (Inr (order_of_model r irs), w))"

definition findAll :: "world \<Rightarrow> (order list, world) outcome" where
  "findAll w = (Inr (map (\<lambda>(r, irs). order_of_model r irs) (findAll_with_items (db w))), w)"

section \<open>What create stores, and when it can\<close>

text \<open>The rows \<open>create\<close> writes for an order and for each of its items.\<close>

definition stored_order :: "order \<Rightarrow> order_row" where
  "stored_order e = \<lparr>or_id = order_id e, or_customerId = order_customerId e, or_total = total e\<rparr>"

definition stored_item :: "string \<Rightarrow> orderItem \<Rightarrow> item_row" where
  "stored_item oid it =
     \<lparr>ir_id = item_id it, ir_name = item_name it, ir_price = item_price it,
      ir_productId = item_productId it, ir_quantity = item_quantity it, ir_orderId = oid\<rparr>"

text \<open>When \<open>create\<close> can succeed: a fresh order id, an existing customer, item ids that
  are distinct and not yet stored, existing products.\<close>

definition create_pre :: "store \<Rightarrow> order \<Rightarrow> bool" where
  "create_pre st e \<longleftrightarrow>
     order_id e \<notin> set (map or_id (orders st)) \<and>
     order_customerId e \<in> set (map cr_id (customers st)) \<and>
     distinct (map item_id (items e)) \<and>
     set (map item_id (items e)) \<inter> set (map ir_id (order_items st)) = {} \<and>
     set (map item_productId (items e)) \<subseteq> set (map pr_id (products st))"

lemmas repository_defs [model_simps] =
  create_item_attrs_def create_attrs_def create_def update_item_attrs_def update_body_def
  update_def item_of_row_def order_of_model_def find_order_def findAll_def

section \<open>Basic facts\<close>

lemma push_items_eq: "push_items acc rs = acc @ map item_of_row rs"
  by (induction rs arbitrary: acc) auto

lemma order_of_model_eq:
  "order_of_model r irs =
     \<lparr>order_id = or_id r, order_customerId = or_customerId r, items = map item_of_row irs\<rparr>"
  by (simp add: order_of_model_def push_items_eq new_Order_def)

lemma destroy_order_id:
  "destroy_items_where ''order_id'' (VStr oid) st =
     Inr (delete_items (\<lambda>r. ir_orderId r = oid) st)"
  by (simp add: destroy_items_where_def item_column_def item_attributes_def item_col_val_def)

section \<open>update: rollback, swallowed errors, and the key mismatch\<close>

lemma update_on_failure:
  "update_body e (db w) = Inl err \<Longrightarrow>
     update e w = (Inr (), w\<lparr>console := console w @ [''error: '' @ error_message err]\<rparr>)"
  by (simp add: update_def transaction_rollback)

lemma update_on_success:
  "update_body e (db w) = Inr st \<Longrightarrow> update e w = (Inr (), w\<lparr>db := st\<rparr>)"
  by (simp add: update_def transaction_commit)

lemma update_body_empty:
  "update_body \<lparr>order_id = oid, order_customerId = c, items = []\<rparr> st =
     Inr (update_orders (\<lambda>r. or_id r = oid) 0 (delete_items (\<lambda>r. ir_orderId r = oid) st))"
  by (simp add: update_body_def destroy_order_id bulkCreate_items_def update_total_where_id_def
      total_def)

lemma build_item_update_attrs:
  "build_item (update_item_attrs e it) = Inl (NotNullViolation ''productId'')"
  by (simp add: build_item_def update_item_attrs_def attr_str_def attr_num_def)

lemma update_body_nonempty:
  "items e = it # its \<Longrightarrow> update_body e st = Inl (NotNullConstraint ''order_items.product_id'')"
  by (simp add: update_body_def destroy_order_id bulkCreate_items_def build_item_update_attrs
      not_null_constraint_def item_column_def item_attributes_def)

text \<open>
  C1. \<open>update\<close> of an order that has items never changes the database: the item objects
  it builds carry the keys \<open>product_id\<close> and \<open>order_id\<close>, which are not attributes of
  \<open>OrderItemModel\<close> (its attributes are \<open>productId\<close> and \<open>orderId\<close>, the keys
  \<open>create\<close> uses), so the mapper drops them, the unvalidated bulk insert leaves the
  column \<open>product_id\<close> \<open>NULL\<close> and fails its NOT NULL constraint, the transaction
  rolls back the deletion of the old items, and the only effect is the line logged by
  the \<open>catch\<close> block (the mapper reports that constraint failure as a
  \<open>SequelizeUniqueConstraintError\<close>); the promise still resolves.
\<close>

theorem update_nonempty_keeps_store:
  "items e \<noteq> [] \<Longrightarrow>
     update e w =
       (Inr (), w\<lparr>console := console w @ [''error: SequelizeUniqueConstraintError: Validation error'']\<rparr>)"
proof -
  assume "items e \<noteq> []"
  then obtain it its where "items e = it # its" by (cases "items e") auto
  then have "update_body e (db w) = Inl (NotNullConstraint ''order_items.product_id'')"
    by (rule update_body_nonempty)
  then show ?thesis
    by (simp add: update_on_failure)
qed

theorem update_nonempty_keeps_store_witness:
  "items \<lparr>order_id = ''1'', order_customerId = ''123'',
          items = [new_OrderItem ''1'' ''Product 1'' 14 ''123'' 2]\<rparr> \<noteq> [] \<and>
   update \<lparr>order_id = ''1'', order_customerId = ''123'',
           items = [new_OrderItem ''1'' ''Product 1'' 14 ''123'' 2]\<rparr>
          \<lparr>db = empty_store, console = []\<rparr> =
     (Inr (), \<lparr>db = empty_store,
               console = [''error: SequelizeUniqueConstraintError: Validation error'']\<rparr>)"
  using update_nonempty_keeps_store [of "\<lparr>order_id = ''1'', order_customerId = ''123'',
          items = [new_OrderItem ''1'' ''Product 1'' 14 ''123'' 2]\<rparr>"
      "\<lparr>db = empty_store, console = []\<rparr>"]
  by simp

text \<open>
  C2. The promise returned by \<open>update\<close> always resolves: every failure inside the
  transaction is caught and only logged, so a caller can never observe it (the spec,
  sections 7 and 9, requires the failure to be propagated).
\<close>

theorem update_resolves: "fst (update e w) = Inr ()"
  by (simp add: update_def transaction_def split: sum.splits)

text \<open>
  C3. \<open>update\<close> is all or nothing on the database: either the store is exactly as before,
  or it is the store that the whole transaction body (destroy, bulk insert, update of
  the total) produces.
\<close>

theorem update_all_or_nothing:
  "db (snd (update e w)) = db w \<or> update_body e (db w) = Inr (db (snd (update e w)))"
  by (cases "update_body e (db w)") (simp_all add: update_on_failure update_on_success)

section \<open>create: what it stores and when it resolves\<close>

lemma build_order_create_attrs: "build_order (create_attrs e) = Inr (stored_order e)"
  by (simp add: build_order_def create_attrs_def attr_str_def attr_num_def stored_order_def)

lemma build_item_create_attrs:
  "build_item ((''orderId'', VStr oid) # create_item_attrs it) = Inr (stored_item oid it)"
  by (simp add: build_item_def create_item_attrs_def attr_str_def attr_num_def stored_item_def)

lemma save_children_ok:
  "insert_items (map (stored_item oid) its) st = Inr st' \<Longrightarrow>
     save_children oid (map create_item_attrs its) st = (None, st')"
  by (induction its arbitrary: st) (auto simp: build_item_create_attrs split: sum.splits)

lemma save_children_None:
  "fst (save_children oid (map create_item_attrs its) st) = None \<Longrightarrow>
     insert_items (map (stored_item oid) its) st = Inr (snd (save_children oid (map create_item_attrs its) st))"
  by (induction its arbitrary: st) (auto simp: build_item_create_attrs split: sum.splits)

lemma stored_item_comp [simp]:
  "ir_id \<circ> stored_item oid = item_id"
  "ir_productId \<circ> stored_item oid = item_productId"
  "ir_id (stored_item oid it) = item_id it"
  "ir_productId (stored_item oid it) = item_productId it"
  "ir_orderId (stored_item oid it) = oid"
  by (simp_all add: stored_item_def fun_eq_iff)

lemma create_eq:
  "create e w =
     (case insert_order (stored_order e) (db w) of
        Inl err \<Rightarrow> (Inl (DbError err), w)
      | Inr st1 \<Rightarrow>
          (case save_children (order_id e) (map create_item_attrs (items e)) st1 of
             (None, st2) \<Rightarrow> (Inr (), w\<lparr>db := st2\<rparr>)
           | (Some err, st2) \<Rightarrow> (Inl (DbError err), w\<lparr>db := st2\<rparr>)))"
  by (simp add: create_def create_with_items_def build_order_create_attrs stored_order_def
      split: sum.splits option.splits prod.splits)

lemma insert_order_stored_Inr_iff:
  "insert_order (stored_order e) st = Inr st1 \<longleftrightarrow>
     order_id e \<notin> set (map or_id (orders st)) \<and>
     order_customerId e \<in> set (map cr_id (customers st)) \<and>
     st1 = st\<lparr>orders := orders st @ [stored_order e]\<rparr>"
  by (auto simp: insert_order_def stored_order_def)

lemma create_items_ok_iff:
  "order_id e \<notin> set (map or_id (orders st)) \<Longrightarrow>
   insert_items (map (stored_item (order_id e)) (items e)) (st\<lparr>orders := orders st @ [stored_order e]\<rparr>) = Inr st2 \<longleftrightarrow>
     distinct (map item_id (items e)) \<and>
     set (map item_id (items e)) \<inter> set (map ir_id (order_items st)) = {} \<and>
     set (map item_productId (items e)) \<subseteq> set (map pr_id (products st)) \<and>
     st2 = st\<lparr>orders := orders st @ [stored_order e],
              order_items := order_items st @ map (stored_item (order_id e)) (items e)\<rparr>"
  by (auto simp: insert_items_Inr_iff stored_order_def)

lemma create_success:
  "create_pre (db w) e \<Longrightarrow>
     create e w =
       (Inr (), w\<lparr>db := (db w)\<lparr>orders := orders (db w) @ [stored_order e],
          order_items := order_items (db w) @ map (stored_item (order_id e)) (items e)\<rparr>\<rparr>)"
proof -
  assume pre: "create_pre (db w) e"
  let ?st1 = "(db w)\<lparr>orders := orders (db w) @ [stored_order e]\<rparr>"
  let ?st2 = "(db w)\<lparr>orders := orders (db w) @ [stored_order e],
          order_items := order_items (db w) @ map (stored_item (order_id e)) (items e)\<rparr>"
  from pre have o: "insert_order (stored_order e) (db w) = Inr ?st1"
    by (simp add: insert_order_stored_Inr_iff create_pre_def)
  from pre have "insert_items (map (stored_item (order_id e)) (items e)) ?st1 = Inr ?st2"
    by (simp add: create_items_ok_iff create_pre_def)
  then have "save_children (order_id e) (map create_item_attrs (items e)) ?st1 = (None, ?st2)"
    by (rule save_children_ok)
  with o show ?thesis
    by (simp add: create_eq)
qed

text \<open>
  C5. The promise \<open>create\<close> returns resolves exactly when the order id is new, the
  customer exists, the item ids are distinct and new, and every product exists;
  otherwise it rejects with the database error.
\<close>

lemma create_Inr_pre: "fst (create e w) = Inr () \<Longrightarrow> create_pre (db w) e"
proof -
  assume ok: "fst (create e w) = Inr ()"
  then obtain st1 where o: "insert_order (stored_order e) (db w) = Inr st1"
    by (auto simp: create_eq split: sum.splits)
  then have fresh: "order_id e \<notin> set (map or_id (orders (db w)))"
    and cust: "order_customerId e \<in> set (map cr_id (customers (db w)))"
    and st1: "st1 = (db w)\<lparr>orders := orders (db w) @ [stored_order e]\<rparr>"
    by (simp_all add: insert_order_stored_Inr_iff)
  from ok o have "fst (save_children (order_id e) (map create_item_attrs (items e)) st1) = None"
    by (auto simp: create_eq split: prod.splits option.splits)
  then have "\<exists>st2. insert_items (map (stored_item (order_id e)) (items e)) st1 = Inr st2"
    by (blast dest: save_children_None)
  with fresh st1 have "distinct (map item_id (items e)) \<and>
     set (map item_id (items e)) \<inter> set (map ir_id (order_items (db w))) = {} \<and>
     set (map item_productId (items e)) \<subseteq> set (map pr_id (products (db w)))"
    by (auto simp: create_items_ok_iff)
  with fresh cust show "create_pre (db w) e"
    by (simp add: create_pre_def)
qed

theorem create_resolves_iff: "fst (create e w) = Inr () \<longleftrightarrow> create_pre (db w) e"
  by (auto simp: create_success dest: create_Inr_pre)

lemma save_children_orders: "orders (snd (save_children oid as st)) = orders st"
  by (induction oid as st rule: save_children.induct)
     (auto simp: bindS_eq_Inr_iff dest: insert_item_frame split: sum.splits)

lemma create_Inl: "fst (create e w) \<noteq> Inr () \<Longrightarrow> \<exists>err. fst (create e w) = Inl (DbError err)"
  by (auto simp: create_eq split: sum.splits prod.splits option.splits)

text \<open>
  C9. \<open>create\<close> is not atomic: when the order row can be inserted (its id is new and
  its customer exists) but the call cannot succeed (an item id is repeated or taken, or a
  product is missing), the promise rejects with the database error and yet the order row,
  with the total of all the items, stays appended to the \<open>orders\<close> table: the mapper
  inserts the parent before the children and runs no transaction.
\<close>

theorem create_not_atomic:
  assumes fresh: "order_id e \<notin> set (map or_id (orders (db w)))"
    and cust: "order_customerId e \<in> set (map cr_id (customers (db w)))"
    and fails: "\<not> create_pre (db w) e"
  shows "(\<exists>err. fst (create e w) = Inl (DbError err)) \<and>
         orders (db (snd (create e w))) = orders (db w) @ [stored_order e]"
proof
  have "fst (create e w) \<noteq> Inr ()"
    using fails create_Inr_pre by blast
  then show "\<exists>err. fst (create e w) = Inl (DbError err)"
    by (rule create_Inl)
next
  let ?st1 = "(db w)\<lparr>orders := orders (db w) @ [stored_order e]\<rparr>"
  have o: "insert_order (stored_order e) (db w) = Inr ?st1"
    using fresh cust by (simp add: insert_order_stored_Inr_iff)
  have "orders (db (snd (create e w))) =
          orders (snd (save_children (order_id e) (map create_item_attrs (items e)) ?st1))"
    using o by (simp add: create_eq split: prod.splits option.splits)
  then show "orders (db (snd (create e w))) = orders (db w) @ [stored_order e]"
    by (simp add: save_children_orders)
qed

theorem create_not_atomic_witness:
  "order_id (new_Order ''1'' ''123'' [new_OrderItem ''1'' ''p'' 14 ''999'' 2]) \<notin>
     set (map or_id (orders (empty_store\<lparr>customers := [\<lparr>cr_id = ''123'', cr_name = ''Rafael'', cr_active = False\<rparr>]\<rparr>))) \<and>
   order_customerId (new_Order ''1'' ''123'' [new_OrderItem ''1'' ''p'' 14 ''999'' 2]) \<in>
     set (map cr_id (customers (empty_store\<lparr>customers := [\<lparr>cr_id = ''123'', cr_name = ''Rafael'', cr_active = False\<rparr>]\<rparr>))) \<and>
   \<not> create_pre (empty_store\<lparr>customers := [\<lparr>cr_id = ''123'', cr_name = ''Rafael'', cr_active = False\<rparr>]\<rparr>)
       (new_Order ''1'' ''123'' [new_OrderItem ''1'' ''p'' 14 ''999'' 2]) \<and>
   (\<exists>err. fst (create (new_Order ''1'' ''123'' [new_OrderItem ''1'' ''p'' 14 ''999'' 2])
              \<lparr>db = empty_store\<lparr>customers := [\<lparr>cr_id = ''123'', cr_name = ''Rafael'', cr_active = False\<rparr>]\<rparr>,
               console = []\<rparr>) = Inl (DbError err)) \<and>
   orders (db (snd (create (new_Order ''1'' ''123'' [new_OrderItem ''1'' ''p'' 14 ''999'' 2])
              \<lparr>db = empty_store\<lparr>customers := [\<lparr>cr_id = ''123'', cr_name = ''Rafael'', cr_active = False\<rparr>]\<rparr>,
               console = []\<rparr>))) =
     [\<lparr>or_id = ''1'', or_customerId = ''123'', or_total = 28\<rparr>]"
proof -
  have h: "order_id (new_Order ''1'' ''123'' [new_OrderItem ''1'' ''p'' 14 ''999'' 2]) \<notin>
     set (map or_id (orders (db \<lparr>db = empty_store\<lparr>customers := [\<lparr>cr_id = ''123'', cr_name = ''Rafael'', cr_active = False\<rparr>]\<rparr>,
               console = []\<rparr>))) \<and>
   order_customerId (new_Order ''1'' ''123'' [new_OrderItem ''1'' ''p'' 14 ''999'' 2]) \<in>
     set (map cr_id (customers (db \<lparr>db = empty_store\<lparr>customers := [\<lparr>cr_id = ''123'', cr_name = ''Rafael'', cr_active = False\<rparr>]\<rparr>,
               console = []\<rparr>))) \<and>
   \<not> create_pre (db \<lparr>db = empty_store\<lparr>customers := [\<lparr>cr_id = ''123'', cr_name = ''Rafael'', cr_active = False\<rparr>]\<rparr>,
               console = []\<rparr>)
       (new_Order ''1'' ''123'' [new_OrderItem ''1'' ''p'' 14 ''999'' 2])"
    by (simp add: create_pre_def empty_store_def order_defs)
  then show ?thesis
    using create_not_atomic [of "new_Order ''1'' ''123'' [new_OrderItem ''1'' ''p'' 14 ''999'' 2]"
        "\<lparr>db = empty_store\<lparr>customers := [\<lparr>cr_id = ''123'', cr_name = ''Rafael'', cr_active = False\<rparr>]\<rparr>,
         console = []\<rparr>"]
    by (simp add: stored_order_def empty_store_def order_defs total_def)
qed

section \<open>Reading back what create stored\<close>

lemma item_of_row_stored [simp]: "item_of_row (stored_item oid it) = it"
  by (simp add: item_of_row_def stored_item_def new_OrderItem_def)

lemma item_of_row_comp_stored [simp]: "item_of_row \<circ> stored_item oid = id"
  by (simp add: fun_eq_iff)

lemma items_of_fresh:
  "store_wf st \<Longrightarrow> oid \<notin> set (map or_id (orders st)) \<Longrightarrow> items_of oid st = []"
  by (auto simp: store_wf_def items_of_def filter_empty_conv)

lemma order_of_model_stored [simp]:
  "order_of_model (stored_order e) (map (stored_item (order_id e)) (items e)) = e"
  by (simp add: order_of_model_eq stored_order_def)

lemma or_id_stored_order [simp]: "or_id (stored_order e) = order_id e"
  by (simp add: stored_order_def)

lemma create_Inr_world:
  "create e w = (Inr (), w') \<Longrightarrow>
     create_pre (db w) e \<and>
     w' = w\<lparr>db := (db w)\<lparr>orders := orders (db w) @ [stored_order e],
          order_items := order_items (db w) @ map (stored_item (order_id e)) (items e)\<rparr>\<rparr>"
proof -
  assume c: "create e w = (Inr (), w')"
  then have "create_pre (db w) e"
    by (intro create_Inr_pre) simp
  with c show ?thesis
    by (simp add: create_success)
qed

lemma items_of_after_create_other:
  "oid \<noteq> oid' \<Longrightarrow>
     items_of oid (st\<lparr>orders := os, order_items := order_items st @ map (stored_item oid') its\<rparr>) =
     items_of oid st"
  by (simp add: items_of_def)

lemma items_of_after_create_new:
  "store_wf st \<Longrightarrow> oid \<notin> set (map or_id (orders st)) \<Longrightarrow>
     items_of oid (st\<lparr>orders := os, order_items := order_items st @ map (stored_item oid) its\<rparr>) =
     map (stored_item oid) its"
  using items_of_fresh [of st oid] by (simp add: items_of_def)

lemma select_order_Some_id: "select_order oid st = Some r \<Longrightarrow> or_id r = oid"
  by (auto simp: select_order_def dest: find_Some_iff [THEN iffD1])

lemma select_order_after_create:
  "select_order oid (st\<lparr>orders := orders st @ [stored_order e], order_items := x\<rparr>) =
     (case select_order oid st of None \<Rightarrow> if order_id e = oid then Some (stored_order e) else None
      | Some r \<Rightarrow> Some r)"
  by (simp add: select_order_def find_append stored_order_def split: option.splits)

section \<open>find on a missing id\<close>

text \<open>
  C7. \<open>find\<close> of an id that no order row has does not report "not found": it rejects
  with the \<open>TypeError\<close> of reading \<open>items\<close> of \<open>null\<close> (spec, section 9).
\<close>

theorem find_missing_rejects:
  "i \<notin> set (map or_id (orders (db w))) \<Longrightarrow>
     find_order i w = (Inl (TypeError ''Cannot read properties of null (reading 'items')''), w)"
proof -
  assume "i \<notin> set (map or_id (orders (db w)))"
  then have "select_order i (db w) = None"
    by (auto simp: select_order_def find_None_iff)
  then show ?thesis
    by (simp add: find_order_def findOne_with_items_def)
qed

theorem find_missing_rejects_witness:
  "''7'' \<notin> set (map or_id (orders (db \<lparr>db = empty_store, console = []\<rparr>))) \<and>
   find_order ''7'' \<lparr>db = empty_store, console = []\<rparr> =
     (Inl (TypeError ''Cannot read properties of null (reading 'items')''),
      \<lparr>db = empty_store, console = []\<rparr>)"
  using find_missing_rejects [of "''7''" "\<lparr>db = empty_store, console = []\<rparr>"]
  by (simp add: empty_store_def)

section \<open>The store invariant\<close>

lemma save_children_wf:
  "store_wf st \<Longrightarrow> store_wf (snd (save_children oid as st))"
  by (induction oid as st rule: save_children.induct)
     (auto simp: bindS_eq_Inr_iff split: sum.splits dest: insert_item_wf)

lemma update_body_wf:
  "store_wf st \<Longrightarrow> update_body e st = Inr st' \<Longrightarrow> store_wf st'"
proof -
  assume wf: "store_wf st" and ok: "update_body e st = Inr st'"
  then obtain rs st2 where
    ins: "insert_items rs (delete_items (\<lambda>r. ir_orderId r = order_id e) st) = Inr st2" and
    st': "st' = update_orders (\<lambda>r. or_id r = order_id e) (total e) st2"
    by (auto simp: update_body_def destroy_order_id bulkCreate_items_def update_total_where_id_def
        bindS_eq_Inr_iff)
  from wf have "store_wf (delete_items (\<lambda>r. ir_orderId r = order_id e) st)"
    by (rule delete_items_wf)
  then have "store_wf st2" using ins by (rule insert_items_wf)
  with st' show ?thesis by (simp add: update_orders_wf)
qed

text \<open>
  \<open>create\<close> keeps the store well-formed (unique keys, foreign keys that point to
  existing rows) whether it resolves or rejects, even though a rejected \<open>create\<close> may
  leave some of its rows behind.
\<close>

theorem create_keeps_store_wf:
  "store_wf (db w) \<Longrightarrow> store_wf (db (snd (create e w)))"
proof (cases "insert_order (stored_order e) (db w)")
  case (Inl err)
  assume "store_wf (db w)"
  with Inl show ?thesis by (simp add: create_eq)
next
  case (Inr st1)
  assume "store_wf (db w)"
  then have "store_wf st1" using Inr by (rule insert_order_wf)
  then have wf2: "store_wf (snd (save_children (order_id e) (map create_item_attrs (items e)) st1))"
    by (rule save_children_wf)
  obtain r st2 where sc: "save_children (order_id e) (map create_item_attrs (items e)) st1 = (r, st2)"
    by (cases "save_children (order_id e) (map create_item_attrs (items e)) st1")
  with wf2 have "store_wf st2" by simp
  with Inr sc show ?thesis
    by (cases r) (simp_all add: create_eq)
qed

theorem create_keeps_store_wf_witness:
  "store_wf (db \<lparr>db = empty_store, console = []\<rparr>) \<and>
   store_wf (db (snd (create (new_Order ''1'' ''123'' [new_OrderItem ''1'' ''n'' 14 ''123'' 2])
                            \<lparr>db = empty_store, console = []\<rparr>)))"
  using create_keeps_store_wf [of "\<lparr>db = empty_store, console = []\<rparr>"
      "new_Order ''1'' ''123'' [new_OrderItem ''1'' ''n'' 14 ''123'' 2]"] store_wf_empty
  by simp

text \<open>
  \<open>update\<close> keeps the store well-formed.
\<close>

theorem update_keeps_store_wf:
  "store_wf (db w) \<Longrightarrow> store_wf (db (snd (update e w)))"
  by (cases "update_body e (db w)")
     (auto simp: update_on_failure update_on_success dest: update_body_wf)

theorem update_keeps_store_wf_witness:
  "store_wf (db \<lparr>db = empty_store, console = []\<rparr>) \<and>
   store_wf (db (snd (update (new_Order ''1'' ''123'' []) \<lparr>db = empty_store, console = []\<rparr>)))"
  using update_keeps_store_wf [of "\<lparr>db = empty_store, console = []\<rparr>" "new_Order ''1'' ''123'' []"]
    store_wf_empty
  by simp

text \<open>
  C11. The order row that a successful \<open>create\<close> writes holds as its total the sum of
  \<open>price * quantity\<close> over the order's items (line 15 stores \<open>entity.total()\<close>).
\<close>

theorem create_stores_total:
  "create_pre (db w) e \<Longrightarrow>
     select_order (order_id e) (db (snd (create e w))) =
       Some \<lparr>or_id = order_id e, or_customerId = order_customerId e,
             or_total = (\<Sum>it \<leftarrow> items e. item_price it * item_quantity it)\<rparr>"
proof -
  assume pre: "create_pre (db w) e"
  then have "order_id e \<notin> set (map or_id (orders (db w)))"
    by (simp add: create_pre_def)
  then have "select_order (order_id e) (db w) = None"
    by (force simp: select_order_def find_None_iff)
  with pre have "select_order (order_id e) (db (snd (create e w))) = Some (stored_order e)"
    by (simp add: create_success select_order_after_create)
  then show ?thesis
    by (simp add: stored_order_def total_sum_list)
qed

theorem create_stores_total_witness:
  "create_pre (empty_store\<lparr>customers := [\<lparr>cr_id = ''123'', cr_name = ''Rafael'', cr_active = False\<rparr>],
                           products := [\<lparr>pr_id = ''123'', pr_name = ''p'', pr_price = 14\<rparr>]\<rparr>)
     (new_Order ''1'' ''123'' [new_OrderItem ''1'' ''p'' 14 ''123'' 2]) \<and>
   select_order ''1''
     (db (snd (create (new_Order ''1'' ''123'' [new_OrderItem ''1'' ''p'' 14 ''123'' 2])
        \<lparr>db = empty_store\<lparr>customers := [\<lparr>cr_id = ''123'', cr_name = ''Rafael'', cr_active = False\<rparr>],
                           products := [\<lparr>pr_id = ''123'', pr_name = ''p'', pr_price = 14\<rparr>]\<rparr>,
         console = []\<rparr>))) =
     Some \<lparr>or_id = ''1'', or_customerId = ''123'', or_total = 28\<rparr>"
proof -
  have pre: "create_pre (empty_store\<lparr>customers := [\<lparr>cr_id = ''123'', cr_name = ''Rafael'', cr_active = False\<rparr>],
                           products := [\<lparr>pr_id = ''123'', pr_name = ''p'', pr_price = 14\<rparr>]\<rparr>)
     (new_Order ''1'' ''123'' [new_OrderItem ''1'' ''p'' 14 ''123'' 2])"
    by (simp add: create_pre_def empty_store_def order_defs)
  show ?thesis
    using create_stores_total [of "\<lparr>db = empty_store\<lparr>customers := [\<lparr>cr_id = ''123'', cr_name = ''Rafael'', cr_active = False\<rparr>],
                           products := [\<lparr>pr_id = ''123'', pr_name = ''p'', pr_price = 14\<rparr>]\<rparr>,
         console = []\<rparr>" "new_Order ''1'' ''123'' [new_OrderItem ''1'' ''p'' 14 ''123'' 2]"] pre
    by (simp add: order_defs)
qed

text \<open>
  C12. \<open>update\<close> of an order with no items succeeds: it deletes every item row of the
  order and sets its stored total to 0 (the empty item list passes, spec section 9).
\<close>

theorem update_empty_clears_items:
  "update \<lparr>order_id = oid, order_customerId = c, items = []\<rparr> w =
     (Inr (), w\<lparr>db := update_orders (\<lambda>r. or_id r = oid) 0
                       (delete_items (\<lambda>r. ir_orderId r = oid) (db w))\<rparr>)"
  by (simp add: update_on_success update_body_empty)

end
