(* ===== verification/RepositoryEffects.thy ===== *)
theory RepositoryEffects
  imports OrderRepository
begin

text \<open>
  Consequences of the definitions of \<open>OrderRepository\<close> that the contract and system
  theories build on: the effect of \<open>update\<close> on the database for an empty and for a
  non-empty item list, that a successful \<open>create\<close> keeps the store well-formed, and the
  error path of \<open>create\<close> at the order row (C15), which together with C9 describes
  every way \<open>create\<close> can reject.
\<close>

section \<open>Effects of update and create\<close>

lemma update_nonempty_db:
  "items e \<noteq> [] \<Longrightarrow> db (snd (update e w)) = db w"
proof -
  assume "items e \<noteq> []"
  then obtain it its where "items e = it # its" by (cases "items e") auto
  then have "update_body e (db w) = Inl (NotNullConstraint ''order_items.product_id'')"
    by (rule update_body_nonempty)
  then show ?thesis by (simp add: update_on_failure)
qed

lemma update_empty_eq:
  "items e = [] \<Longrightarrow>
     snd (update e w) = w\<lparr>db := update_orders (\<lambda>r. or_id r = order_id e) 0
                         (delete_items (\<lambda>r. ir_orderId r = order_id e) (db w))\<rparr>"
proof -
  assume "items e = []"
  then have e: "e = \<lparr>order_id = order_id e, order_customerId = order_customerId e, items = []\<rparr>"
    by simp
  show ?thesis
    by (subst e, subst update_on_success) (simp_all only: update_body_empty order.select_convs snd_conv)
qed

lemma create_success_wf:
  "store_wf (db w) \<Longrightarrow> create_pre (db w) e \<Longrightarrow> store_wf (db (snd (create e w)))"
proof -
  assume wf: "store_wf (db w)" and pre: "create_pre (db w) e"
  let ?st1 = "(db w)\<lparr>orders := orders (db w) @ [stored_order e]\<rparr>"
  have "insert_order (stored_order e) (db w) = Inr ?st1"
    using pre by (simp add: insert_order_stored_Inr_iff create_pre_def)
  with wf have wf1: "store_wf ?st1" by (rule insert_order_wf)
  have "insert_items (map (stored_item (order_id e)) (items e)) ?st1 =
          Inr (db (snd (create e w)))"
    using pre by (simp add: create_items_ok_iff create_pre_def create_success)
  with wf1 show ?thesis by (rule insert_items_wf)
qed

section \<open>Properties\<close>

text \<open>
  C15. Error path of \<open>create\<close> at the order row: when the order id is taken or the
  customer does not exist, \<open>create\<close> rejects with the database error of that
  constraint (the primary key is checked before the foreign key) and changes nothing;
  no item is attempted.
\<close>

theorem create_order_row_rejected:
  assumes "order_id e \<in> set (map or_id (orders (db w))) \<or>
           order_customerId e \<notin> set (map cr_id (customers (db w)))"
  shows "create e w =
           (Inl (DbError (if order_id e \<in> set (map or_id (orders (db w))) then UniqueViolation ''orders''
                          else ForeignKeyViolation ''orders.customer_id'')), w)"
  using assms by (auto simp: create_eq insert_order_def stored_order_def)

theorem create_order_row_rejected_witness:
  "(''1'' \<in> set (map or_id (orders (db \<lparr>db = empty_store, console = []\<rparr>))) \<or>
    ''123'' \<notin> set (map cr_id (customers (db \<lparr>db = empty_store, console = []\<rparr>)))) \<and>
   create (new_Order ''1'' ''123'' [new_OrderItem ''1'' ''n'' 14 ''123'' 2]) \<lparr>db = empty_store, console = []\<rparr> =
     (Inl (DbError (ForeignKeyViolation ''orders.customer_id'')), \<lparr>db = empty_store, console = []\<rparr>)"
proof -
  have h: "''1'' \<in> set (map or_id (orders (db \<lparr>db = empty_store, console = []\<rparr>))) \<or>
    ''123'' \<notin> set (map cr_id (customers (db \<lparr>db = empty_store, console = []\<rparr>)))"
    by (simp add: empty_store_def)
  from create_order_row_rejected [of "new_Order ''1'' ''123'' [new_OrderItem ''1'' ''n'' 14 ''123'' 2]"
      "\<lparr>db = empty_store, console = []\<rparr>"] h
  show ?thesis by (simp add: new_Order_def empty_store_def)
qed

end
