(* ===== verification/CustomerProductRepository.thy ===== *)
theory CustomerProductRepository
  imports Customer RepositoryEffects
begin

text \<open>
  \<open>CustomerRepository.create\<close> and \<open>ProductRepository.create\<close>
  (\<open>src/infrastructure/repository/customer.repository.ts\<close>,
  \<open>product.repository.ts\<close>; not in the repository snapshot). The tests of
  \<open>order.repository.spec.ts\<close> call them to satisfy the foreign keys of an order, so they
  are modelled from the spec (section 6) as one insert each into their table, the
  rejection being the constraint the insert violates. The address columns of the
  customer table are not modelled: no order operation reads them.
\<close>

definition customer_row_of :: "customer \<Rightarrow> customer_row" where
  "customer_row_of c = \<lparr>cr_id = cust_id c, cr_name = cust_name c, cr_active = cust_active c\<rparr>"

definition CustomerRepository_create :: "customer \<Rightarrow> world \<Rightarrow> (unit, world) outcome" where
  "CustomerRepository_create c w =
     (case insert_customer (customer_row_of c) (db w) of
        Inl err \<Rightarrow> (Inl (DbError err), w)
      | Inr st \<Rightarrow> (Inr (), w\<lparr>db := st\<rparr>))"

definition product_row_of :: "product \<Rightarrow> product_row" where
  "product_row_of p = \<lparr>pr_id = prod_id p, pr_name = prod_name p, pr_price = prod_price p\<rparr>"

definition ProductRepository_create :: "product \<Rightarrow> world \<Rightarrow> (unit, world) outcome" where
  "ProductRepository_create p w =
     (case insert_product (product_row_of p) (db w) of
        Inl err \<Rightarrow> (Inl (DbError err), w)
      | Inr st \<Rightarrow> (Inr (), w\<lparr>db := st\<rparr>))"

lemmas other_repository_defs [model_simps] =
  customer_row_of_def CustomerRepository_create_def product_row_of_def ProductRepository_create_def

lemma CustomerRepository_create_wf:
  "store_wf (db w) \<Longrightarrow> store_wf (db (snd (CustomerRepository_create c w)))"
  by (auto simp: CustomerRepository_create_def split: sum.splits intro: insert_customer_wf)

lemma ProductRepository_create_wf:
  "store_wf (db w) \<Longrightarrow> store_wf (db (snd (ProductRepository_create p w)))"
  by (auto simp: ProductRepository_create_def split: sum.splits intro: insert_product_wf)

end
