(* ===== verification/RepositoryTests.thy ===== *)
theory RepositoryTests
  imports CustomerProductRepository
begin

text \<open>
  The tests of \<open>src/src/infrastructure/repository/order.repository.spec.ts\<close> and
  \<open>src/src/domain/entity/custumer.spec.ts\<close>. Each test is a definition that runs the
  test's calls in order, from a fresh database (\<open>beforeEach\<close> syncs an empty in-memory
  SQLite), and returns whether every \<open>await\<close> resolved and every \<open>expect\<close> held; a
  rejected \<open>await\<close> fails the test. The fixtures (\<open>empty_world\<close>, \<open>setup_world\<close>,
  \<open>update_test_before\<close>) are the worlds the witnesses of the properties run on.

  The lemmas at the end evaluate the tests on the model, as a check that the model
  agrees with them; they are not properties of the code (the properties hold for every
  input, and the tests' inputs are instances). The customer tests agree by construction
  on the error texts, which the model takes from them. The one fact they show about the
  tests themselves is that the update test cannot fail on the code as it is.
\<close>

section \<open>Fixture\<close>

definition empty_world :: world where
  "empty_world = \<lparr>db = empty_store, console = []\<rparr>"

definition test_address :: address where
  "test_address = \<lparr>street = ''Street Test'', number = 13, zip = ''57525000'', city = ''City Test''\<rparr>"

text \<open>Lines 42-55 (and their copies in the other tests): a customer with an address and
  one product, both stored.\<close>

definition setup_world :: "string \<Rightarrow> int \<Rightarrow> (unit, world) outcome" where
  "setup_world pname price =
     (case new_Customer ''123'' ''Rafael'' of
        Inl err \<Rightarrow> (Inl err, empty_world)
      | Inr c0 \<Rightarrow>
          (case CustomerRepository_create (changeAddress c0 test_address) empty_world of
             (Inl err, w) \<Rightarrow> (Inl err, w)
           | (Inr _, w1) \<Rightarrow> ProductRepository_create (new_Product ''123'' pname price) w1))"

section \<open>order.repository.spec.ts\<close>

text \<open>"should create a new Order" (lines 41-89).\<close>

definition test_create_order :: bool where
  "test_create_order =
     (case setup_world ''Name Test'' 14 of
        (Inl _, _) \<Rightarrow> False
      | (Inr _, w2) \<Rightarrow>
          (let it = new_OrderItem ''1'' ''Name Test'' 14 ''123'' 2;
               ord = new_Order ''1'' ''123'' [it] in
           case create ord w2 of
             (Inl _, _) \<Rightarrow> False
           | (Inr _, w3) \<Rightarrow>
               findOne_with_items ''1'' (db w3) =
                 Some (\<lparr>or_id = ''1'', or_customerId = ''123'', or_total = total ord\<rparr>,
                       [\<lparr>ir_id = ''1'', ir_name = ''Name Test'', ir_price = 14,
                         ir_productId = ''123'', ir_quantity = 2, ir_orderId = ''1''\<rparr>])))"

text \<open>"should update an order" (lines 91-148): the world before the call of
  \<open>update\<close> (lines 92-117), the order it passes (lines 119-125), and the test's check on
  the rows read back.\<close>

definition update_test_before :: "(unit, world) outcome" where
  "update_test_before =
     (case setup_world ''Product 1'' 14 of
        (Inl err, w) \<Rightarrow> (Inl err, w)
      | (Inr _, w2) \<Rightarrow> create (new_Order ''1'' ''123'' [new_OrderItem ''1'' ''Product 1'' 14 ''123'' 2]) w2)"

definition update_test_order :: order where
  "update_test_order = new_Order ''1'' ''123'' [new_OrderItem ''1'' ''Product 1'' 14 ''123'' 2]"

definition test_update_order :: bool where
  "test_update_order =
     (case update_test_before of
        (Inl _, _) \<Rightarrow> False
      | (Inr _, w3) \<Rightarrow>
          (case update update_test_order w3 of
             (Inl _, _) \<Rightarrow> False
           | (Inr _, w4) \<Rightarrow>
               findOne_with_items ''1'' (db w4) =
                 Some (\<lparr>or_id = ''1'', or_customerId = ''123'', or_total = total update_test_order\<rparr>,
                       [\<lparr>ir_id = ''1'', ir_name = ''Product 1'', ir_price = 14,
                         ir_productId = ''123'', ir_quantity = 2, ir_orderId = ''1''\<rparr>])))"

text \<open>"should find an order" (lines 150-181).\<close>

definition test_find_order :: bool where
  "test_find_order =
     (case setup_world ''Name Test'' 14 of
        (Inl _, _) \<Rightarrow> False
      | (Inr _, w2) \<Rightarrow>
          (let ord = new_Order ''1'' ''123'' [new_OrderItem ''1'' ''Name Test'' 14 ''123'' 2] in
           case create ord w2 of
             (Inl _, _) \<Rightarrow> False
           | (Inr _, w3) \<Rightarrow>
               (case find_order ''1'' w3 of
                  (Inl _, _) \<Rightarrow> False
                | (Inr res, _) \<Rightarrow>
                    order_id res = order_id ord \<and> order_customerId res = order_customerId ord)))"

text \<open>"should find all orders" (lines 183-226).\<close>

definition test_find_all_orders :: bool where
  "test_find_all_orders =
     (case setup_world ''Name Test 1'' 10 of
        (Inl _, _) \<Rightarrow> False
      | (Inr _, w1) \<Rightarrow>
          (case ProductRepository_create (new_Product ''321'' ''Name Test 2'' 20) w1 of
             (Inl _, _) \<Rightarrow> False
           | (Inr _, w2) \<Rightarrow>
               (case create (new_Order ''1'' ''123'' [new_OrderItem ''1'' ''Name Test 1'' 10 ''123'' 2]) w2 of
                  (Inl _, _) \<Rightarrow> False
                | (Inr _, w3) \<Rightarrow>
                    (case create (new_Order ''2'' ''123'' [new_OrderItem ''2'' ''Name Test 2'' 20 ''321'' 2]) w3 of
                       (Inl _, _) \<Rightarrow> False
                     | (Inr _, w4) \<Rightarrow>
                         (case findAll w4 of
                            (Inl _, _) \<Rightarrow> False
                          | (Inr res, _) \<Rightarrow> length res = 2)))))"

section \<open>custumer.spec.ts\<close>

text \<open>Lines 4-8, 9-13: the constructor's validation messages.\<close>

definition test_customer_empty_id :: bool where
  "test_customer_empty_id = (new_Customer '''' ''Rafael'' = Inl (ValidationError ''Id is required''))"

definition test_customer_empty_name :: bool where
  "test_customer_empty_name = (new_Customer ''1'' '''' = Inl (ValidationError ''Name is required''))"

text \<open>Lines 14-18: \<open>changeName\<close>.\<close>

definition test_change_name :: bool where
  "test_change_name =
     (case new_Customer ''1'' ''Rafael'' of
        Inl _ \<Rightarrow> False
      | Inr c \<Rightarrow> cust_name (changeName c ''Rafael Railton'') = ''Rafael Railton'')"

text \<open>Lines 19-25: \<open>activate\<close> without an address throws.\<close>

definition test_activate_without_address :: bool where
  "test_activate_without_address =
     (case new_Customer ''1'' ''Costumer 1'' of
        Inl _ \<Rightarrow> False
      | Inr c \<Rightarrow> activate c = Inl (ValidationError ''Address is mandatory to activate a customer''))"

text \<open>Lines 26-32: with an address \<open>activate\<close> succeeds; lines 33-37: \<open>deactivate\<close>.\<close>

definition test_activate :: bool where
  "test_activate =
     (case new_Customer ''1'' ''Costumer 1'' of
        Inl _ \<Rightarrow> False
      | Inr c \<Rightarrow>
          (case activate (changeAddress c \<lparr>street = ''Street 1'', number = 12,
                                           zip = ''12323-657'', city = ''Manaus''\<rparr>) of
             Inl _ \<Rightarrow> False
           | Inr c' \<Rightarrow> isActive c'))"

definition test_deactivate :: bool where
  "test_deactivate =
     (case new_Customer ''1'' ''Costumer 1'' of
        Inl _ \<Rightarrow> False
      | Inr c \<Rightarrow> \<not> isActive (deactivate c))"

section \<open>The tests, evaluated on the model\<close>

lemmas fixture_defs = empty_world_def test_address_def setup_world_def

text \<open>The update test passes, but the call of \<open>update\<close> it makes leaves the database
  exactly as \<open>create\<close> left it: its new item has the stored price (14), so the test
  cannot detect that \<open>update\<close> changes nothing.\<close>

lemma update_test_passes_vacuously:
  "test_update_order \<and>
   db (snd (update update_test_order (snd update_test_before))) = db (snd update_test_before)"
  by (simp add: test_update_order_def update_test_before_def update_test_order_def fixture_defs
      model_simps total_def)

lemma order_repository_tests_pass:
  "test_create_order \<and> test_find_order \<and> test_find_all_orders"
  by (simp add: test_create_order_def test_find_order_def test_find_all_orders_def fixture_defs
      model_simps stored_order_def)

lemma customer_tests_pass:
  "test_customer_empty_id \<and> test_customer_empty_name \<and> test_change_name \<and>
   test_activate_without_address \<and> test_activate \<and> test_deactivate"
  by (simp add: test_customer_empty_id_def test_customer_empty_name_def test_change_name_def
      test_activate_without_address_def test_activate_def test_deactivate_def model_simps)

end
