(* ===== verification/OrderContract.thy ===== *)
theory OrderContract
  imports RepositoryTests
begin

text \<open>
  The contract of the order repository (spec sections 4.3 and 6: \<open>create\<close>, \<open>update\<close>,
  \<open>find\<close>, \<open>findAll\<close> over a collection of orders) as operations on an abstract finite
  map from order ids to orders, and the abstraction \<open>abs_orders\<close> that reads that map off
  the store. The lemmas compare each method of \<open>OrderRepository\<close> with its abstract
  counterpart: \<open>findAll\<close> is \<open>find\<close> of every stored id, and \<open>update\<close> implements "replace the items" only in the cases where
  the key mismatch of lines 40-42 does not matter.
\<close>

section \<open>Abstraction and abstract operations\<close>

text \<open>The abstract order stored under an id: the order row and the item rows that point
  to it, in table order.\<close>

definition abs_orders :: "store \<Rightarrow> string \<Rightarrow> order option" where
  "abs_orders st oid = map_option (\<lambda>r. order_of_model r (items_of (or_id r) st)) (select_order oid st)"

text \<open>The contract's \<open>update\<close>: the stored order keeps its id and customer and gets the
  new item list; an id that is not stored is left alone.\<close>

definition a_update :: "order \<Rightarrow> (string \<Rightarrow> order option) \<Rightarrow> (string \<Rightarrow> order option)" where
  "a_update e m =
     (case m (order_id e) of None \<Rightarrow> m | Some o' \<Rightarrow> m(order_id e \<mapsto> o'\<lparr>items := items e\<rparr>))"

section \<open>Lemmas\<close>

lemma order_of_model_total [simp]:
  "order_of_model (r\<lparr>or_total := t\<rparr>) irs = order_of_model r irs"
  by (simp add: order_of_model_eq)

lemma abs_orders_update_empty:
  "abs_orders (update_orders (\<lambda>r. or_id r = x) t (delete_items (\<lambda>r. ir_orderId r = x) st)) =
     a_update \<lparr>order_id = x, order_customerId = c, items = []\<rparr> (abs_orders st)"
proof
  fix oid
  show "abs_orders (update_orders (\<lambda>r. or_id r = x) t (delete_items (\<lambda>r. ir_orderId r = x) st)) oid =
     a_update \<lparr>order_id = x, order_customerId = c, items = []\<rparr> (abs_orders st) oid"
  proof (cases "select_order oid st")
    case None
    moreover have "select_order x st = None" if "oid = x"
      using None that by simp
    ultimately show ?thesis
      by (auto simp: abs_orders_def a_update_def select_order_update_orders split: option.splits)
  next
    case (Some r)
    then have id: "or_id r = oid" by (rule select_order_Some_id)
    show ?thesis
    proof (cases "oid = x")
      case True
      with Some id show ?thesis
        by (simp add: abs_orders_def a_update_def select_order_update_orders items_of_delete_order
            order_of_model_eq)
    next
      case False
      with Some id show ?thesis
        by (auto simp: abs_orders_def a_update_def select_order_update_orders items_of_delete_order
            split: option.splits)
    qed
  qed
qed

lemma order_items_update_same [simp]: "(o' = o'\<lparr>items := x\<rparr>) \<longleftrightarrow> items o' = x"
  by (cases o') auto

lemma a_update_idem_iff:
  "a_update e m = m \<longleftrightarrow> m (order_id e) = None \<or> map_option items (m (order_id e)) = Some (items e)"
  by (cases "m (order_id e)") (auto simp: a_update_def fun_upd_idem_iff)

lemma abs_orders_create_self:
  assumes wf: "store_wf (db w)" and pre: "create_pre (db w) e"
  shows "abs_orders (db (snd (create e w))) (order_id e) = Some e"
proof -
  let ?st = "(db w)\<lparr>orders := orders (db w) @ [stored_order e],
          order_items := order_items (db w) @ map (stored_item (order_id e)) (items e)\<rparr>"
  have fresh: "order_id e \<notin> set (map or_id (orders (db w)))"
    using pre by (simp add: create_pre_def)
  then have "select_order (order_id e) (db w) = None"
    by (force simp: select_order_def find_None_iff)
  then have "select_order (order_id e) ?st = Some (stored_order e)"
    by (simp add: select_order_after_create)
  moreover have "items_of (order_id e) ?st = map (stored_item (order_id e)) (items e)"
    by (rule items_of_after_create_new [OF wf fresh])
  ultimately show ?thesis
    using pre by (simp add: abs_orders_def create_success)
qed

lemma abs_orders_create_other:
  assumes pre: "create_pre (db w) e" and ne: "oid \<noteq> order_id e"
  shows "abs_orders (db (snd (create e w))) oid = abs_orders (db w) oid"
proof -
  let ?st = "(db w)\<lparr>orders := orders (db w) @ [stored_order e],
          order_items := order_items (db w) @ map (stored_item (order_id e)) (items e)\<rparr>"
  have sel: "select_order oid ?st = select_order oid (db w)"
    using ne by (simp add: select_order_after_create split: option.splits)
  have "items_of (or_id r) ?st = items_of (or_id r) (db w)"
    if "select_order oid (db w) = Some r" for r
    using that ne by (simp add: select_order_Some_id items_of_after_create_other)
  with sel pre show ?thesis
    by (cases "select_order oid (db w)") (simp_all add: abs_orders_def create_success)
qed

lemma abs_orders_create_fun_upd:
  assumes wf: "store_wf (db w)" and pre: "create_pre (db w) e"
  shows "abs_orders (db (snd (create e w))) = (abs_orders (db w))(order_id e \<mapsto> e)"
proof
  fix oid
  show "abs_orders (db (snd (create e w))) oid = ((abs_orders (db w))(order_id e \<mapsto> e)) oid"
    by (cases "oid = order_id e")
       (simp_all add: abs_orders_create_self [OF wf pre] abs_orders_create_other [OF pre])
qed

lemma findAll_create_step:
  assumes wf: "store_wf (db w)" and before: "fst (findAll w) = Inr os"
    and c: "create e w = (Inr (), w')"
  shows "fst (findAll w') = Inr (os @ [e])"
proof -
  let ?st = "(db w)\<lparr>orders := orders (db w) @ [stored_order e],
          order_items := order_items (db w) @ map (stored_item (order_id e)) (items e)\<rparr>"
  from create_Inr_world [OF c] have pre: "create_pre (db w) e" and w': "w' = w\<lparr>db := ?st\<rparr>"
    by simp_all
  have fresh: "order_id e \<notin> set (map or_id (orders (db w)))"
    using pre by (simp add: create_pre_def)
  have old: "map (\<lambda>r. (r, items_of (or_id r) ?st)) (orders (db w)) =
             map (\<lambda>r. (r, items_of (or_id r) (db w))) (orders (db w))"
  proof (rule map_cong [OF refl])
    fix r
    assume "r \<in> set (orders (db w))"
    with fresh have "or_id r \<noteq> order_id e" by force
    then show "(r, items_of (or_id r) ?st) = (r, items_of (or_id r) (db w))"
      by (simp add: items_of_after_create_other)
  qed
  have new: "items_of (order_id e) ?st = map (stored_item (order_id e)) (items e)"
    by (rule items_of_after_create_new [OF wf fresh])
  from before have "os = map (\<lambda>(r, irs). order_of_model r irs) (findAll_with_items (db w))"
    by (simp add: findAll_def)
  with old new w' show ?thesis
    by (simp add: findAll_def findAll_with_items_def)
qed

section \<open>find, findAll and update against the contract\<close>

text \<open>
  C13. \<open>update\<close> implements the contract's "replace the item set of the stored order"
  exactly when the new item list is empty, no order is stored under the id, or the
  stored order already has exactly the new items. In every other case the abstract
  state after \<open>update\<close> differs from the one the contract requires (spec sections 4.3
  and 8).
\<close>

theorem update_refines_contract_iff:
  "abs_orders (db (snd (update e w))) = a_update e (abs_orders (db w)) \<longleftrightarrow>
     items e = [] \<or> abs_orders (db w) (order_id e) = None \<or>
     map_option items (abs_orders (db w) (order_id e)) = Some (items e)"
proof (cases "items e = []")
  case True
  then have e: "e = \<lparr>order_id = order_id e, order_customerId = order_customerId e, items = []\<rparr>"
    by simp
  have "db (snd (update e w)) = update_orders (\<lambda>r. or_id r = order_id e) 0
                         (delete_items (\<lambda>r. ir_orderId r = order_id e) (db w))"
    using True by (simp add: update_empty_eq)
  then show ?thesis
    using True abs_orders_update_empty [of "order_id e" 0 "db w" "order_customerId e"]
    by (simp del: a_update_def) (metis e)
next
  case False
  then show ?thesis
    by (simp add: update_nonempty_db eq_commute [of "abs_orders (db w)"] a_update_idem_iff)
qed

text \<open>
  C14. On a well-formed store, \<open>findAll\<close> is equivalent to calling \<open>find\<close> on the id
  of every order row, in table order: it returns exactly the orders those calls return.
\<close>

theorem findAll_equiv_find:
  assumes wf: "store_wf (db w)"
  shows "fst (findAll w) = Inr os \<longleftrightarrow>
     map Inr os = map (\<lambda>r. fst (find_order (or_id r) w)) (orders (db w))"
proof -
  let ?g = "\<lambda>r. order_of_model r (items_of (or_id r) (db w))"
  have dist: "distinct (map or_id (orders (db w)))"
    using wf by (simp add: store_wf_def)
  have "fst (find_order (or_id r) w) = Inr (?g r)" if "r \<in> set (orders (db w))" for r
    using select_order_member [OF dist that]
    by (simp add: find_order_def findOne_with_items_def select_order_def)
  then have finds: "map (\<lambda>r. fst (find_order (or_id r) w)) (orders (db w)) = map Inr (map ?g (orders (db w)))"
    by simp
  have res: "fst (findAll w) = Inr (map ?g (orders (db w)))"
    by (simp add: findAll_def findAll_with_items_def comp_def)
  have inj: "map Inr os = map Inr (map ?g (orders (db w))) \<longleftrightarrow> os = map ?g (orders (db w))"
    by (rule inj_map_eq_map [OF inj_Inr])
  show ?thesis
    unfolding finds inj using res by auto
qed

theorem findAll_equiv_find_witness:
  "store_wf (db (snd update_test_before)) \<and>
   fst (findAll (snd update_test_before)) =
     Inr [new_Order ''1'' ''123'' [new_OrderItem ''1'' ''Product 1'' 14 ''123'' 2]] \<and>
   map Inr [new_Order ''1'' ''123'' [new_OrderItem ''1'' ''Product 1'' 14 ''123'' 2]] =
     map (\<lambda>r. fst (find_order (or_id r) (snd update_test_before))) (orders (db (snd update_test_before)))"
proof -
  have wf: "store_wf (db (snd update_test_before))"
    by (simp add: update_test_before_def fixture_defs model_simps store_wf_def)
  have r: "fst (findAll (snd update_test_before)) =
     Inr [new_Order ''1'' ''123'' [new_OrderItem ''1'' ''Product 1'' 14 ''123'' 2]]"
    by (simp add: update_test_before_def fixture_defs model_simps)
  from findAll_equiv_find [OF wf, of "[new_Order ''1'' ''123'' [new_OrderItem ''1'' ''Product 1'' 14 ''123'' 2]]"]
    wf r show ?thesis by simp
qed

end
