(* ===== verification/RepositorySystem.thy ===== *)
theory RepositorySystem
  imports OrderContract
begin

text \<open>
  The repositories as one system. The methods of \<open>OrderRepository\<close> are the constructors
  of \<open>order_op\<close> and \<open>order_step\<close> dispatches each to its definition; together with
  \<open>create\<close> of the customer and product repositories they form \<open>sys_op\<close>, and
  \<open>sys_step\<close> is one awaited call of any of them (a caller awaits one call after the
  other, spec section 5). \<open>create_all\<close> is a caller that creates several orders in
  order and stops at the first rejection, as the test "should find all orders" does.

  The invariant \<open>totals_ok\<close>: the stored total of every order row equals the sum over its
  item rows. Every call keeps it except a \<open>create\<close> that rejects after inserting its
  order row (C9).
\<close>

section \<open>Operations\<close>

datatype order_op = Create order | Update order | Find string | FindAll

datatype order_result = Done | Found order | FoundAll "order list"

fun order_step :: "order_op \<Rightarrow> world \<Rightarrow> (order_result, world) outcome" where
  "order_step (Create e) w = (case create e w of (r, w') \<Rightarrow> (map_sum id (\<lambda>_. Done) r, w'))"
| "order_step (Update e) w = (case update e w of (r, w') \<Rightarrow> (map_sum id (\<lambda>_. Done) r, w'))"
| "order_step (Find i) w = (case find_order i w of (r, w') \<Rightarrow> (map_sum id Found r, w'))"
| "order_step FindAll w = (case findAll w of (r, w') \<Rightarrow> (map_sum id FoundAll r, w'))"

datatype sys_op = CustomerCreate customer | ProductCreate product | OrderOp order_op

fun sys_step :: "sys_op \<Rightarrow> world \<Rightarrow> world" where
  "sys_step (CustomerCreate c) w = snd (CustomerRepository_create c w)"
| "sys_step (ProductCreate p) w = snd (ProductRepository_create p w)"
| "sys_step (OrderOp op) w = snd (order_step op w)"

fun create_all :: "order list \<Rightarrow> world \<Rightarrow> (unit, world) outcome" where
  "create_all [] w = (Inr (), w)"
| "create_all (e # es) w =
     (case create e w of (Inl err, w') \<Rightarrow> (Inl err, w') | (Inr _, w') \<Rightarrow> create_all es w')"

text \<open>Every order row stores the sum of \<open>price * quantity\<close> over its item rows.\<close>

definition totals_ok :: "store \<Rightarrow> bool" where
  "totals_ok st =
     list_all (\<lambda>r. or_total r = (\<Sum>ir \<leftarrow> items_of (or_id r) st. ir_price ir * ir_quantity ir))
       (orders st)"

section \<open>Lemmas\<close>

lemma find_order_world [simp]: "snd (find_order i w) = w"
  by (simp add: find_order_def split: option.splits)

lemma findAll_world [simp]: "snd (findAll w) = w"
  by (simp add: findAll_def)

lemma sys_step_OrderOp:
  "sys_step (OrderOp op) w =
     (case op of Create e \<Rightarrow> snd (create e w) | Update e \<Rightarrow> snd (update e w) | _ \<Rightarrow> w)"
  by (cases op) (simp_all add: case_prod_beta)

lemma other_repository_tables:
  "orders (db (snd (CustomerRepository_create c w))) = orders (db w)"
  "order_items (db (snd (CustomerRepository_create c w))) = order_items (db w)"
  "orders (db (snd (ProductRepository_create p w))) = orders (db w)"
  "order_items (db (snd (ProductRepository_create p w))) = order_items (db w)"
  by (simp_all add: CustomerRepository_create_def ProductRepository_create_def insert_customer_def
      insert_product_def split: sum.splits if_splits)

lemma totals_ok_cong:
  "orders st' = orders st \<Longrightarrow> order_items st' = order_items st \<Longrightarrow> totals_ok st' = totals_ok st"
  by (simp add: totals_ok_def items_of_def)

lemma stored_item_amount [simp]:
  "(\<lambda>ir. ir_price ir * ir_quantity ir) \<circ> stored_item oid = (\<lambda>it. item_price it * item_quantity it)"
  by (simp add: fun_eq_iff stored_item_def)

lemma totals_ok_create:
  assumes wf: "store_wf (db w)" and ok: "totals_ok (db w)" and pre: "create_pre (db w) e"
  shows "totals_ok (db (snd (create e w)))"
proof -
  let ?st = "(db w)\<lparr>orders := orders (db w) @ [stored_order e],
          order_items := order_items (db w) @ map (stored_item (order_id e)) (items e)\<rparr>"
  have fresh: "order_id e \<notin> set (map or_id (orders (db w)))"
    using pre by (simp add: create_pre_def)
  have old: "items_of (or_id r) ?st = items_of (or_id r) (db w)" if "r \<in> set (orders (db w))" for r
    using that fresh by (force intro: items_of_after_create_other)
  have new: "items_of (order_id e) ?st = map (stored_item (order_id e)) (items e)"
    by (rule items_of_after_create_new [OF wf fresh])
  have "totals_ok ?st"
    using ok old new
    by (simp add: totals_ok_def list_all_iff stored_order_def total_sum_list)
  then show ?thesis
    using pre by (simp add: create_success)
qed

lemma totals_ok_update:
  assumes ok: "totals_ok (db w)"
  shows "totals_ok (db (snd (update e w)))"
proof (cases "items e = []")
  case True
  have "totals_ok (update_orders (\<lambda>r. or_id r = order_id e) 0
                   (delete_items (\<lambda>r. ir_orderId r = order_id e) (db w)))"
    using ok
    by (auto simp: totals_ok_def list_all_iff orders_update_orders items_of_delete_order)
  with True show ?thesis
    by (simp add: update_empty_eq)
next
  case False
  with ok show ?thesis
    by (simp add: update_nonempty_db)
qed

section \<open>Properties\<close>

text \<open>
  C10. Consistency of stored totals: if every order row stores the sum of
  \<open>price * quantity\<close> over its item rows, it still does after any repository call,
  except a \<open>create\<close> whose preconditions fail (that call rejects, but may leave the
  order row and some of its items behind, C9).
\<close>

theorem totals_preserved:
  assumes wf: "store_wf (db w)" and ok: "totals_ok (db w)"
    and guard: "\<forall>e. op = OrderOp (Create e) \<longrightarrow> create_pre (db w) e"
  shows "totals_ok (db (sys_step op w))"
proof (cases op)
  case (CustomerCreate c)
  have "totals_ok (db (snd (CustomerRepository_create c w))) = totals_ok (db w)"
    by (rule totals_ok_cong) (simp_all add: other_repository_tables)
  with CustomerCreate ok show ?thesis by simp
next
  case (ProductCreate p)
  have "totals_ok (db (snd (ProductRepository_create p w))) = totals_ok (db w)"
    by (rule totals_ok_cong) (simp_all add: other_repository_tables)
  with ProductCreate ok show ?thesis by simp
next
  case (OrderOp oop)
  show ?thesis
  proof (cases oop)
    case (Create e)
    with OrderOp guard have "create_pre (db w) e" by simp
    with OrderOp Create wf ok show ?thesis
      by (simp add: sys_step_OrderOp totals_ok_create del: sys_step.simps)
  qed (use OrderOp ok in \<open>simp_all add: sys_step_OrderOp totals_ok_update del: sys_step.simps\<close>)
qed

theorem totals_preserved_witness:
  "store_wf (db (snd (setup_world ''Name Test'' 14))) \<and>
   totals_ok (db (snd (setup_world ''Name Test'' 14))) \<and>
   create_pre (db (snd (setup_world ''Name Test'' 14)))
     (new_Order ''1'' ''123'' [new_OrderItem ''1'' ''Name Test'' 14 ''123'' 2]) \<and>
   totals_ok (db (sys_step (OrderOp (Create (new_Order ''1'' ''123'' [new_OrderItem ''1'' ''Name Test'' 14 ''123'' 2])))
                  (snd (setup_world ''Name Test'' 14))))"
proof -
  have wf: "store_wf (db (snd (setup_world ''Name Test'' 14)))"
    by (simp add: fixture_defs model_simps store_wf_def)
  have ok: "totals_ok (db (snd (setup_world ''Name Test'' 14)))"
    by (simp add: fixture_defs model_simps totals_ok_def)
  have pre: "create_pre (db (snd (setup_world ''Name Test'' 14)))
     (new_Order ''1'' ''123'' [new_OrderItem ''1'' ''Name Test'' 14 ''123'' 2])"
    by (simp add: fixture_defs model_simps create_pre_def)
  from totals_preserved [OF wf ok, of "OrderOp (Create (new_Order ''1'' ''123'' [new_OrderItem ''1'' ''Name Test'' 14 ''123'' 2]))"]
    wf ok pre show ?thesis by simp
qed

end
