(* ===== verification/Spec2Isabelle.thy ===== *)
theory Spec2Isabelle
  imports RepositorySystem
begin

text \<open>
  \<^bold>\<open>A verification model of the order repository of ddd-fcc-desafio-repository.\<close>

  \<^bold>\<open>The program.\<close> The snapshot holds one implementation file,
  \<open>src/src/infrastructure/repository/order.repository.ts\<close> (\<open>OrderRepository\<close>:
  \<open>create\<close>, \<open>update\<close>, \<open>find\<close>, \<open>findAll\<close>), and two test files,
  \<open>order.repository.spec.ts\<close> and \<open>custumer.spec.ts\<close>. The repository maps the
  \<open>Order\<close> aggregate to rows through the sequelize mapper: \<open>create\<close> inserts the order
  row with its item rows, \<open>update\<close> deletes the items, bulk-inserts the new ones and
  updates the total in one transaction and logs any failure, \<open>find\<close>/\<open>findAll\<close> read
  rows back into entities. The entities (\<open>Customer\<close>, \<open>Address\<close>, \<open>Order\<close>,
  \<open>OrderItem\<close>, \<open>Product\<close>), the other repositories and the mapper's model classes are
  not in the snapshot; they are modelled from the spec and marked spec-modelled in the
  manifest.

  \<^bold>\<open>Theories, from the leaves.\<close>
  \<^item> \<open>Prelude\<close>: the error values (the mapper's validation error, SQLite constraint
    and statement errors, the domain's validation errors, \<open>TypeError\<close>), the
    \<open>outcome\<close> of an awaited call (settled promise and the state it leaves),
    \<open>bindS\<close> and \<open>traverse\<close> for fallible steps.
  \<^item> \<open>Customer\<close>: \<open>Customer\<close>/\<open>Address\<close> as records, each method a function
    (\<open>new_Customer\<close>, \<open>changeName\<close>, \<open>changeAddress\<close>, \<open>activate\<close>,
    \<open>deactivate\<close>, \<open>isActive\<close>); the lifecycle as \<open>customer_step\<close> over
    \<open>customer_op\<close> and the inductive \<open>customer_reachable\<close>; lemmas: every reachable
    customer has a non-empty id and is active only with an address
    (\<open>customer_reachable_inv\<close>, by rule induction), the constructor's validation order
    and the activate/deactivate lifecycle. The error texts are the ones the tests expect
    (the spec does not give them).
  \<^item> \<open>Order\<close>: \<open>Order\<close>, \<open>OrderItem\<close>, \<open>Product\<close>; \<open>total\<close> is the \<open>reduce\<close>
    (a left fold), proved equal to the sum of \<open>price * quantity\<close>.
  \<^item> \<open>Store\<close>: the SQLite database as a record of four tables (lists of rows in
    insertion order) with the foreign keys spec section 6 names; each statement
    (\<open>insert_order\<close>, \<open>insert_item\<close>, the all-or-nothing multi-row \<open>insert_items\<close>,
    \<open>delete_items\<close>, \<open>update_orders\<close>, \<open>select_order\<close>, \<open>items_of\<close>) checks the
    primary and foreign keys; \<open>store_wf\<close> is the invariant those constraints keep.
  \<^item> \<open>Sequelize\<close>: the mapper operations the repository calls. Objects are key/value
    lists; \<open>build_item\<close>/\<open>build_order\<close> keep only the model's attributes (for the item
    model \<open>id, name, price, productId, quantity, orderId\<close>: the keys of the test's
    expected JSON, lines 79-86); \<open>create_with_items\<close> validates and inserts the parent,
    then attempts every child (\<open>Promise.all\<close>, no transaction);
    \<open>destroy_items_where\<close> maps a where-key to its column; \<open>bulkCreate_items\<close> does not
    validate, so a missing attribute reaches SQLite as \<open>NULL\<close> and fails the column's
    NOT NULL constraint (\<open>not_null_constraint\<close>); \<open>update_total_where_id\<close>; the
    managed \<open>transaction\<close>, which commits or restores the store;
    \<open>findOne_with_items\<close>, \<open>findAll_with_items\<close>.
  \<^item> \<open>OrderRepository\<close>: the four methods over a \<open>world\<close> (the store and the console
    that the \<open>catch\<close> block writes to), each definition translating its lines of the
    source, with the object keys exactly as written (\<open>create_attrs\<close>,
    \<open>create_item_attrs\<close>, \<open>update_item_attrs\<close>), the transaction body
    \<open>update_body\<close>, the logged text \<open>error_message\<close> (the name and message the
    mapper's SQLite dialect gives each error), the for-of loop \<open>push_items\<close>. Lemmas:
    \<open>update\<close>'s behaviour (C1, C2, C3, C12); exactly when \<open>create\<close> resolves (C5),
    that a rejected \<open>create\<close> may keep its order row (C9), what it stores (C11);
    \<open>find\<close> on a missing id (C7); that \<open>create\<close> and \<open>update\<close> keep \<open>store_wf\<close>.
  \<^item> \<open>RepositoryEffects\<close>: the effect of \<open>update\<close> on the store for empty and
    non-empty item lists, and the error path of \<open>create\<close> at the order row (C15).
  \<^item> \<open>CustomerProductRepository\<close>: \<open>create\<close> of the customer and product repositories,
    which the order tests need for the foreign keys.
  \<^item> \<open>RepositoryTests\<close>: the tests of both test files as executable scenarios, and
    their fixtures (the stored customer and product, the world of the update test), on
    which the witnesses run. The tests are evaluated on the model as a check of the model,
    not stated as properties; the evaluation shows that the update test passes without
    \<open>update\<close> changing anything (\<open>update_test_passes_vacuously\<close>).
  \<^item> \<open>OrderContract\<close>: the repository contract of spec sections 4.3 and 6 over an
    abstract map from order ids to orders; \<open>abs_orders\<close> reads that map off the store
    and \<open>a_update\<close> is the contract's "replace the items". \<open>update\<close> implements
    \<open>a_update\<close> exactly when the new items are empty or already stored (C13);
    \<open>findAll\<close> is equivalent to \<open>find\<close> of every stored id (C14).
  \<^item> \<open>RepositorySystem\<close>: the methods as the operation datatype \<open>order_op\<close> with the
    dispatcher \<open>order_step\<close>, joined with the other repositories' \<open>create\<close> in
    \<open>sys_step\<close>; \<open>totals_ok\<close> (each stored total is the sum over its item rows)
    survives every call but a rejected \<open>create\<close> (C10); \<open>create_all\<close> creates several
    orders in sequence.
  \<^item> this theory: the properties that span the layers: the create/find round trip (C4),
    the refinement of a sequence of successful creates as successive updates of the
    abstract map (C6), and \<open>findAll\<close> after N successful creates (C8).

  \<^bold>\<open>Findings the theorems establish.\<close> \<open>update\<close> of an order with items never changes
  the database: its item objects use \<open>product_id\<close>/\<open>order_id\<close>, which are not attributes
  of the item model, so the unvalidated bulk insert fails the NOT NULL constraint of
  \<open>order_items.product_id\<close>, the transaction rolls back and the \<open>catch\<close> only logs
  (C1, C2, C3); against the abstract contract, \<open>update\<close> fails to replace the items of a
  stored order in every case where that matters (C13). \<open>find\<close> of a missing id throws a
  \<open>TypeError\<close> (C7). \<open>create\<close> is not atomic: a rejected create can leave its order row,
  with the total of all its items (C9), and the invariant on stored totals then fails,
  which is why C10 excludes that case. An update with no items deletes every item and
  sets the total to 0 (C12).

  \<^bold>\<open>Modelling choices.\<close> JavaScript numbers of prices, quantities and totals are
  \<open>int\<close> (every value the code and tests use is integral; floating-point rounding is not
  modelled). Each \<open>async\<close> method runs to completion before the next starts (the tests
  await every call); two transactions are never interleaved (spec section 5 leaves that
  to the database's isolation). The children that \<open>create\<close> saves concurrently are
  attempted in array order, which is the order SQLite's single connection executes them.
  Foreign keys are enforced (the mapper turns them on for SQLite) and every column is
  non-null. The bulk insert reports the NOT NULL failure of any row before a key
  violation of an earlier row; this decides only which error a statement with both
  faults reports, never whether it fails. Every recursion is structural, on a list, so
  no fuel is needed.

  \<^bold>\<open>Not modelled.\<close> The mapper's internals beyond the calls above, the SQL text, the
  model class declarations beyond the attribute names and columns they declare, the
  address columns of the customer table, the customer and product repositories beyond
  \<open>create\<close> (their sources are not in the snapshot and no test calls more), and the
  repository interfaces as TypeScript types (their contract is \<open>OrderContract\<close>).
  Interleaved transactions are not modelled: every call is awaited before the next (spec
  section 5). The tests' expectations are instances of the properties and are not
  properties themselves. Nullability is assumed, not read off the code: the model
  classes that declare it are not in the snapshot and spec section 6 names only the
  foreign keys, so every column, the foreign keys included, is taken to be NOT NULL.
\<close>

section \<open>Properties across components\<close>

text \<open>
  C4. Round trip: on a well-formed store, an order that \<open>create\<close> can store is read back
  by \<open>find\<close> as the same order (same id, customer id and items, in the same order).
\<close>

theorem create_find_roundtrip:
  assumes wf: "store_wf (db w)" and pre: "create_pre (db w) e"
  shows "find_order (order_id e) (snd (create e w)) = (Inr e, snd (create e w))"
proof -
  let ?st = "(db w)\<lparr>orders := orders (db w) @ [stored_order e],
          order_items := order_items (db w) @ map (stored_item (order_id e)) (items e)\<rparr>"
  have c: "snd (create e w) = w\<lparr>db := ?st\<rparr>"
    using pre by (simp add: create_success)
  have fresh: "order_id e \<notin> set (map or_id (orders (db w)))"
    using pre by (simp add: create_pre_def)
  then have sel: "select_order (order_id e) ?st = Some (stored_order e)"
    by (simp add: select_order_def select_order_append_new stored_order_def)
  have "items_of (order_id e) ?st = map (stored_item (order_id e)) (items e)"
    using items_of_fresh [OF wf fresh] by (simp add: items_of_def)
  with sel have "findOne_with_items (order_id e) ?st =
      Some (stored_order e, map (stored_item (order_id e)) (items e))"
    by (simp add: findOne_with_items_def stored_order_def)
  with c show ?thesis
    by (simp add: find_order_def)
qed

theorem create_find_roundtrip_witness:
  "store_wf (db (snd (setup_world ''Name Test'' 14))) \<and>
   create_pre (db (snd (setup_world ''Name Test'' 14)))
     (new_Order ''1'' ''123'' [new_OrderItem ''1'' ''Name Test'' 14 ''123'' 2]) \<and>
   find_order ''1'' (snd (create (new_Order ''1'' ''123'' [new_OrderItem ''1'' ''Name Test'' 14 ''123'' 2])
                            (snd (setup_world ''Name Test'' 14)))) =
     (Inr (new_Order ''1'' ''123'' [new_OrderItem ''1'' ''Name Test'' 14 ''123'' 2]),
      snd (create (new_Order ''1'' ''123'' [new_OrderItem ''1'' ''Name Test'' 14 ''123'' 2])
             (snd (setup_world ''Name Test'' 14))))"
proof -
  have wf: "store_wf (db (snd (setup_world ''Name Test'' 14)))"
    by (simp add: fixture_defs model_simps store_wf_def)
  have pre: "create_pre (db (snd (setup_world ''Name Test'' 14)))
     (new_Order ''1'' ''123'' [new_OrderItem ''1'' ''Name Test'' 14 ''123'' 2])"
    by (simp add: fixture_defs model_simps create_pre_def)
  show ?thesis
    using create_find_roundtrip [OF wf pre] wf pre by (simp only: order.select_convs new_Order_def)
qed

text \<open>
  C6. Refinement: on a well-formed store, a sequence of \<open>create\<close> calls that all
  resolve changes the abstract map of orders exactly by adding each new order under its
  id, in turn; every other order, with its items, reads back as before.
\<close>

theorem create_all_refines_abstract:
  assumes "store_wf (db w)" and "create_all es w = (Inr (), w')"
  shows "abs_orders (db w') = foldl (\<lambda>m e. m(order_id e \<mapsto> e)) (abs_orders (db w)) es"
  using assms
proof (induction es arbitrary: w)
  case Nil
  then show ?case by simp
next
  case (Cons e es)
  from Cons.prems(2) obtain w1 where c: "create e w = (Inr (), w1)"
    and rest: "create_all es w1 = (Inr (), w')"
    by (auto split: prod.splits sum.splits)
  have pre: "create_pre (db w) e" and w1: "w1 = snd (create e w)"
    using create_Inr_world [OF c] c by simp_all
  have "abs_orders (db w1) = (abs_orders (db w))(order_id e \<mapsto> e)"
    unfolding w1 by (rule abs_orders_create_fun_upd [OF Cons.prems(1) pre])
  moreover have "store_wf (db w1)"
    unfolding w1 by (rule create_success_wf [OF Cons.prems(1) pre])
  ultimately show ?case
    using Cons.IH [of w1] rest by simp
qed

theorem create_all_refines_abstract_witness:
  "store_wf (db (snd (setup_world ''Name Test'' 14))) \<and>
   create_all [new_Order ''1'' ''123'' [new_OrderItem ''1'' ''Name Test'' 14 ''123'' 2],
               new_Order ''2'' ''123'' [new_OrderItem ''2'' ''Name Test'' 14 ''123'' 3]]
     (snd (setup_world ''Name Test'' 14)) =
     (Inr (), snd (create_all [new_Order ''1'' ''123'' [new_OrderItem ''1'' ''Name Test'' 14 ''123'' 2],
               new_Order ''2'' ''123'' [new_OrderItem ''2'' ''Name Test'' 14 ''123'' 3]]
     (snd (setup_world ''Name Test'' 14)))) \<and>
   abs_orders (db (snd (create_all [new_Order ''1'' ''123'' [new_OrderItem ''1'' ''Name Test'' 14 ''123'' 2],
               new_Order ''2'' ''123'' [new_OrderItem ''2'' ''Name Test'' 14 ''123'' 3]]
     (snd (setup_world ''Name Test'' 14))))) ''2'' =
     Some (new_Order ''2'' ''123'' [new_OrderItem ''2'' ''Name Test'' 14 ''123'' 3])"
proof -
  have wf: "store_wf (db (snd (setup_world ''Name Test'' 14)))"
    by (simp add: fixture_defs model_simps store_wf_def)
  have c: "create_all [new_Order ''1'' ''123'' [new_OrderItem ''1'' ''Name Test'' 14 ''123'' 2],
               new_Order ''2'' ''123'' [new_OrderItem ''2'' ''Name Test'' 14 ''123'' 3]]
     (snd (setup_world ''Name Test'' 14)) =
     (Inr (), snd (create_all [new_Order ''1'' ''123'' [new_OrderItem ''1'' ''Name Test'' 14 ''123'' 2],
               new_Order ''2'' ''123'' [new_OrderItem ''2'' ''Name Test'' 14 ''123'' 3]]
     (snd (setup_world ''Name Test'' 14))))"
    by (simp add: fixture_defs model_simps)
  from create_all_refines_abstract [OF wf c] wf c show ?thesis by (simp add: new_Order_def)
qed

text \<open>
  C8. \<open>findAll\<close> after a sequence of \<open>create\<close> calls that all resolved returns the
  orders it returned before, in the same order, followed by the created orders in the
  order they were created: N successful creates add exactly N entries (spec section 8).
\<close>

theorem findAll_after_creates:
  assumes "store_wf (db w)" and "fst (findAll w) = Inr os" and "create_all es w = (Inr (), w')"
  shows "fst (findAll w') = Inr (os @ es)"
  using assms
proof (induction es arbitrary: w os)
  case Nil
  then show ?case by simp
next
  case (Cons e es)
  from Cons.prems(3) obtain w1 where c: "create e w = (Inr (), w1)"
    and rest: "create_all es w1 = (Inr (), w')"
    by (auto split: prod.splits sum.splits)
  have all: "fst (findAll w1) = Inr (os @ [e])"
    by (rule findAll_create_step [OF Cons.prems(1,2) c])
  have "store_wf (db (snd (create e w)))"
    using create_Inr_world [OF c] by (blast intro: create_success_wf [OF Cons.prems(1)])
  with c have "store_wf (db w1)" by simp
  from Cons.IH [OF this all rest] show ?case by simp
qed

theorem findAll_after_creates_witness:
  "store_wf (db (snd (setup_world ''Name Test'' 14))) \<and>
   fst (findAll (snd (setup_world ''Name Test'' 14))) = Inr [] \<and>
   create_all [new_Order ''1'' ''123'' [new_OrderItem ''1'' ''Name Test'' 14 ''123'' 2],
               new_Order ''2'' ''123'' [new_OrderItem ''2'' ''Name Test'' 14 ''123'' 3]]
     (snd (setup_world ''Name Test'' 14)) =
     (Inr (), snd (create_all [new_Order ''1'' ''123'' [new_OrderItem ''1'' ''Name Test'' 14 ''123'' 2],
               new_Order ''2'' ''123'' [new_OrderItem ''2'' ''Name Test'' 14 ''123'' 3]]
     (snd (setup_world ''Name Test'' 14)))) \<and>
   fst (findAll (snd (create_all [new_Order ''1'' ''123'' [new_OrderItem ''1'' ''Name Test'' 14 ''123'' 2],
               new_Order ''2'' ''123'' [new_OrderItem ''2'' ''Name Test'' 14 ''123'' 3]]
     (snd (setup_world ''Name Test'' 14))))) =
     Inr [new_Order ''1'' ''123'' [new_OrderItem ''1'' ''Name Test'' 14 ''123'' 2],
          new_Order ''2'' ''123'' [new_OrderItem ''2'' ''Name Test'' 14 ''123'' 3]]"
proof -
  have wf: "store_wf (db (snd (setup_world ''Name Test'' 14)))"
    by (simp add: fixture_defs model_simps store_wf_def)
  have b: "fst (findAll (snd (setup_world ''Name Test'' 14))) = Inr []"
    by (simp add: fixture_defs model_simps)
  have c: "create_all [new_Order ''1'' ''123'' [new_OrderItem ''1'' ''Name Test'' 14 ''123'' 2],
               new_Order ''2'' ''123'' [new_OrderItem ''2'' ''Name Test'' 14 ''123'' 3]]
     (snd (setup_world ''Name Test'' 14)) =
     (Inr (), snd (create_all [new_Order ''1'' ''123'' [new_OrderItem ''1'' ''Name Test'' 14 ''123'' 2],
               new_Order ''2'' ''123'' [new_OrderItem ''2'' ''Name Test'' 14 ''123'' 3]]
     (snd (setup_world ''Name Test'' 14))))"
    by (simp add: fixture_defs model_simps)
  from findAll_after_creates [OF wf b c] wf b c show ?thesis by simp
qed

end
